theory Spec2Isabelle
  imports Main "HOL-Library.Sublist"
begin

section \<open>Go runtime: strings, slices, errors\<close>

text \<open>
  Go strings are byte sequences, modelled as \<open>string\<close> (a list of 8-bit characters).
  A run-time panic and a returned error are both values of \<open>error\<close>; \<open>Panic\<close>
  marks the former. \<open>ErrResourceNotFound\<close> is the store's sentinel
  \<open>store.ErrResourceNotFound\<close>, \<open>ErrManifestNotFound d\<close> is the error
  \<open>fmt.Errorf("manifest: %s not found", d)\<close>, \<open>ErrWrapped msg e\<close> is
  \<open>fmt.Errorf(msg + ": %w", e)\<close>, \<open>ErrUpstreamProxyInUse p r\<close> is the error that
  upstream proxy \<open>p\<close> is used inside registry \<open>r\<close>, and \<open>ErrOther\<close> is any other
  error of a collaborator.
\<close>

datatype panic = IndexOutOfRange | SliceBoundsOutOfRange | NilPointerDereference

datatype error =
    Panic panic
  | ErrValidateIdentifier string
  | ErrCodeRootNotFound
  | ErrCodeRegNotFound
  | ErrCodeParentNotFound
  | ErrCodeDenied
  | ErrResourceNotFound
  | ErrManifestNotFound string
  | ErrOther string
  | ErrWrapped string error
  | ErrUpstreamProxyInUse string string

text \<open>\<open>strings.Trim(s, cutset)\<close>: drop the leading and trailing bytes that are in the cutset.\<close>

definition Trim :: "string \<Rightarrow> string \<Rightarrow> string" where
  "Trim s cutset =
     rev (dropWhile (\<lambda>c. c \<in> set cutset) (rev (dropWhile (\<lambda>c. c \<in> set cutset) s)))"

text \<open>
  \<open>strings.Split(s, sep)\<close> for a one-byte separator (the only use in the source is
  \<open>"/"\<close>): one more segment than there are separators, so the empty string splits
  into the single segment \<open>""\<close>.
\<close>

fun Split :: "string \<Rightarrow> char \<Rightarrow> string list" where
  "Split [] sep = [[]]"
| "Split (c # cs) sep =
     (if c = sep then [] # Split cs sep
      else (case Split cs sep of
              [] \<Rightarrow> [[c]]
            | seg # segs \<Rightarrow> (c # seg) # segs))"

text \<open>\<open>strings.Join(elems, sep)\<close>.\<close>

fun Join :: "string list \<Rightarrow> string \<Rightarrow> string" where
  "Join [] sep = []"
| "Join [x] sep = x"
| "Join (x # y # ys) sep = x @ sep @ Join (y # ys) sep"

text \<open>\<open>errors.Is(err, target)\<close>: \<open>err\<close> is \<open>target\<close> or wraps it.\<close>

fun errorsIs :: "error \<Rightarrow> error \<Rightarrow> bool" where
  "errorsIs (ErrWrapped msg e) target = (ErrWrapped msg e = target \<or> errorsIs e target)"
| "errorsIs e target = (e = target)"

text \<open>
  \<open>strings.ReplaceAll(s, old, new)\<close>: the non-overlapping occurrences of \<open>old\<close>,
  found from the left, are replaced by \<open>new\<close>. (For an empty \<open>old\<close> Go inserts
  \<open>new\<close> before every character and at the end; the source only passes non-empty
  tokens.)
\<close>

function ReplaceAll :: "string \<Rightarrow> string \<Rightarrow> string \<Rightarrow> string" where
  "ReplaceAll [] old new = (if old = [] then new else [])"
| "ReplaceAll (c # cs) old new =
     (if old = [] then new @ c # ReplaceAll cs old new
      else if prefix old (c # cs) then new @ ReplaceAll (drop (length old) (c # cs)) old new
      else c # ReplaceAll cs old new)"
  by pat_completeness auto
termination
  by (relation "measure (\<lambda>(s, old, new). length s)") auto

text \<open>Sequencing: the first panic or returned error ends the computation.\<close>

definition bindE :: "error + 'a \<Rightarrow> ('a \<Rightarrow> error + 'b) \<Rightarrow> error + 'b" where
  "bindE m f = (case m of Inl e \<Rightarrow> Inl e | Inr x \<Rightarrow> f x)"

text \<open>
  Indexing \<open>xs[i]\<close> and slicing \<open>xs[lo:hi]\<close> with Go's \<open>int\<close> indices: out of range
  is a run-time panic. The slices here come from \<open>strings.Split\<close>, whose capacity equals
  its length.
\<close>

definition index :: "'a list \<Rightarrow> int \<Rightarrow> error + 'a" where
  "index xs i =
     (if 0 \<le> i \<and> i < int (length xs) then Inr (xs ! nat i)
      else Inl (Panic IndexOutOfRange))"

definition slice :: "'a list \<Rightarrow> int \<Rightarrow> int \<Rightarrow> error + 'a list" where
  "slice xs lo hi =
     (if 0 \<le> lo \<and> lo \<le> hi \<and> hi \<le> int (length xs)
      then Inr (take (nat (hi - lo)) (drop (nat lo) xs))
      else Inl (Panic SliceBoundsOutOfRange))"

section \<open>Route parser (registry/app/api/handler/oci/base.go)\<close>

type_synonym routeType = string

definition Manifests :: routeType where "Manifests = ''manifests''"
definition Blobs :: routeType where "Blobs = ''blobs''"
definition BlobsUploadsSession :: routeType where "BlobsUploadsSession = ''blob-uploads-session''"
definition Tags :: routeType where "Tags = ''tags''"
definition Referrers :: routeType where "Referrers = ''referrers''"
definition Invalid :: routeType where "Invalid = ''invalid''"

definition MinSizeOfURLSegments :: int where "MinSizeOfURLSegments = 5"

definition APIPartManifest :: string where "APIPartManifest = ''manifests''"
definition APIPartBlobs :: string where "APIPartBlobs = ''blobs''"
definition APIPartUpload :: string where "APIPartUpload = ''uploads''"
definition APIPartTag :: string where "APIPartTag = ''tags''"
definition APIPartReferrer :: string where "APIPartReferrer = ''referrers''"

text \<open>
  \<open>getRouteType\<close>. The two index expressions are guarded by the length test, so they
  are in range and read with \<open>!\<close>.
\<close>

definition getRouteType :: "string \<Rightarrow> routeType" where
  "getRouteType url =
     (let url' = Trim url ''/'';
          segments = Split url' CHR ''/''
      in if int (length segments) < MinSizeOfURLSegments then Invalid
         else
           (let typ = segments ! (length segments - 2)
            in if typ = APIPartManifest then Manifests
               else if typ = APIPartBlobs then
                 (if segments ! (length segments - 1) = APIPartUpload
                  then BlobsUploadsSession else Blobs)
               else if typ = APIPartUpload then BlobsUploadsSession
               else if typ = APIPartTag then Tags
               else if typ = APIPartReferrer then Referrers
               else Invalid))"

text \<open>
  \<open>GetQueryParamMap\<close>: \<open>url.Values\<close> is a map from a key to its list of values; the
  first value of every key with at least one value is kept.
\<close>

definition GetQueryParamMap :: "(string \<rightharpoonup> string list) \<Rightarrow> (string \<rightharpoonup> string)" where
  "GetQueryParamMap queryParams =
     (\<lambda>key. case queryParams key of
               None \<Rightarrow> None
             | Some values \<Rightarrow> (case values of [] \<Rightarrow> None | v # _ \<Rightarrow> Some v))"

record pathVars =
  rootIdentifier :: string
  registry :: string
  image :: string
  ref :: string
  dgst :: string
  tag :: string

text \<open>
  \<open>ExtractPathVars\<close>. \<open>digestParse\<close> stands for \<open>digest.Parse\<close> of the third-party
  package \<open>opencontainers/go-digest\<close>: \<open>digestParse s\<close> holds when the parse returns no
  error. The first three accesses are unconditional, in the order of the source; the
  logging calls have no effect on the result.
\<close>

definition ExtractPathVars ::
  "(string \<Rightarrow> bool) \<Rightarrow> string \<Rightarrow> (string \<rightharpoonup> string) \<Rightarrow> error + pathVars" where
  "ExtractPathVars digestParse path0 paramMap =
     (let path = Trim path0 ''/'';
          segments = Split path CHR ''/'';
          n = int (length segments)
      in bindE (index segments 1) (\<lambda>rootIdentifier'.
         bindE (index segments 2) (\<lambda>registry'.
         bindE (slice segments 3 (n - 2)) (\<lambda>imageSegs.
         (let v = \<lparr>rootIdentifier = rootIdentifier', registry = registry',
                   image = Join imageSegs ''/'', ref = [], dgst = [], tag = []\<rparr>;
              typ = getRouteType path
          in if typ = Manifests then
               bindE (index segments (n - 1)) (\<lambda>r.
                 if \<not> digestParse r then Inr (v\<lparr>ref := r, tag := r\<rparr>)
                 else Inr (v\<lparr>ref := r, dgst := r\<rparr>))
             else if typ = Blobs then
               bindE (index segments (n - 1)) (\<lambda>d. Inr (v\<lparr>dgst := d\<rparr>))
             else if typ = BlobsUploadsSession then
               bindE (index segments (n - 1)) (\<lambda>lastSeg.
               bindE (index segments (n - 2)) (\<lambda>prevSeg.
               bindE (if lastSeg \<noteq> APIPartUpload \<and> prevSeg = APIPartUpload
                      then bindE (slice segments 3 (n - 3)) (\<lambda>imageSegs'.
                             Inr (v\<lparr>image := Join imageSegs' ''/'', ref := lastSeg\<rparr>))
                      else Inr v) (\<lambda>v'.
                 (case paramMap ''digest'' of
                    Some d \<Rightarrow> Inr (v'\<lparr>dgst := d\<rparr>)
                  | None \<Rightarrow> Inr v'))))
             else if typ = Tags then Inr v
             else if typ = Referrers then
               bindE (index segments (n - 1)) (\<lambda>d. Inr (v\<lparr>dgst := d\<rparr>))
             else Inr v)))))"

section \<open>Access resolver (\<open>GetRegistryInfo\<close> in base.go)\<close>

text \<open>
  The rows the resolver reads. Only the columns the resolver inspects are kept. A registry
  type is a string in the source (\<open>artifact.RegistryType\<close>), so any value other than
  \<open>UPSTREAM\<close> is possible.
\<close>

record Space =
  space_ID :: int
  space_Identifier :: string

record Registry =
  reg_ID :: int
  reg_ParentID :: int
  reg_Name :: string
  reg_Type :: string
  AllowedPattern :: "string list"
  BlockedPattern :: "string list"

definition RegistryTypeUPSTREAM :: string where "RegistryTypeUPSTREAM = ''UPSTREAM''"
definition RegistryTypeVIRTUAL :: string where "RegistryTypeVIRTUAL = ''VIRTUAL''"

text \<open>
  \<open>pkg.RegistryInfo\<close> with its embedded \<open>ArtifactInfo\<close> and \<open>BaseInfo\<close> flattened. The
  \<open>URLBuilder\<close> field (an object of the third-party distribution package, built from the
  request) is left out.
\<close>

record RegistryInfo =
  RootIdentifier :: string
  RootParentID :: int
  ParentID :: int
  RegIdentifier :: string
  Image :: string
  Reference :: string
  Digest :: string
  Tag :: string
  Path :: string

record Request =
  URL_Path :: string
  URL_Query :: "string \<rightharpoonup> string list"

text \<open>
  What \<open>GetRegistryInfo\<close> calls. The store lookups return \<open>None\<close> where the Go method
  returns a non-nil error. \<open>ValidateIdentifier\<close>, \<open>MatchArtifactFilter\<close> and
  \<open>digest.Parse\<close> are outside the sources modelled here and are parameters:
  \<open>ValidateIdentifier\<close> returns the error message if any, \<open>MatchArtifactFilter\<close>
  returns its flag and its optional error.
\<close>

record Handler =
  ValidateIdentifier :: "string \<Rightarrow> string option"
  FindByRefCaseInsensitive :: "string \<Rightarrow> Space option"
  GetByRootParentIDAndName :: "int \<Rightarrow> string \<Rightarrow> Registry option"
  SpaceStore_Find :: "int \<Rightarrow> Space option"
  MatchArtifactFilter :: "string list \<Rightarrow> string list \<Rightarrow> string \<Rightarrow> bool \<times> string option"
  digestParse :: "string \<Rightarrow> bool"

text \<open>
  Modelled from the spec: \<open>commons.IsEmpty\<close> is outside the sources modelled here; on a
  string it is the test for the empty string (the filter applies "when both are present").
\<close>

definition IsEmpty :: "string \<Rightarrow> bool" where
  "IsEmpty s = (s = [])"

definition orErr :: "'a option \<Rightarrow> error \<Rightarrow> error + 'a" where
  "orErr m e = (case m of None \<Rightarrow> Inl e | Some x \<Rightarrow> Inr x)"

definition failWith :: "('e \<Rightarrow> error) \<Rightarrow> 'e option \<Rightarrow> error + unit" where
  "failWith mk err = (case err of None \<Rightarrow> Inr () | Some e \<Rightarrow> Inl (mk e))"

definition GetRegistryInfo :: "Handler \<Rightarrow> Request \<Rightarrow> bool \<Rightarrow> error + RegistryInfo" where
  "GetRegistryInfo h r remoteSupport =
     (let queryParams = URL_Query r;
          path = URL_Path r;
          paramMap = GetQueryParamMap queryParams
      in bindE (ExtractPathVars (digestParse h) path paramMap) (\<lambda>pv.
         bindE (failWith ErrValidateIdentifier (ValidateIdentifier h (rootIdentifier pv))) (\<lambda>_.
         bindE (orErr (FindByRefCaseInsensitive h (rootIdentifier pv)) ErrCodeRootNotFound)
           (\<lambda>rootSpace.
         bindE (orErr (GetByRootParentIDAndName h (space_ID rootSpace) (registry pv))
                  ErrCodeRegNotFound) (\<lambda>reg.
         bindE (orErr (SpaceStore_Find h (reg_ParentID reg)) ErrCodeParentNotFound) (\<lambda>_.
         (let info = \<lparr>RootIdentifier = rootIdentifier pv,
                      RootParentID = space_ID rootSpace,
                      ParentID = reg_ParentID reg,
                      RegIdentifier = registry pv,
                      Image = image pv,
                      Reference = ref pv,
                      Digest = dgst pv,
                      Tag = tag pv,
                      Path = URL_Path r\<rparr>
          in if IsEmpty (space_Identifier rootSpace) then Inl ErrCodeParentNotFound
             else if IsEmpty (registry pv) then Inl ErrCodeRegNotFound
             else if \<not> IsEmpty (Image info) \<and> \<not> IsEmpty (Tag info) \<and>
                     (let (flag, err2) =
                            MatchArtifactFilter h (AllowedPattern reg) (BlockedPattern reg)
                              (Image info @ '':'' @ Tag info)
                      in \<not> flag \<or> err2 \<noteq> None)
               then Inl ErrCodeDenied
             else if reg_Type reg = RegistryTypeUPSTREAM \<and> \<not> remoteSupport
               then Inl ErrCodeDenied
             else Inr info)))))))"

text \<open>
  Modelled from the spec: \<open>MatchArtifactFilter\<close> is outside the sources modelled here. The
  artifact \<open>image:tag\<close> passes when it "matches R's allow globs (empty \<Rightarrow> match all) and
  does not match any block glob". The glob matcher itself is the parameter \<open>glob\<close>
  (pattern first); no error is reported.
\<close>

definition matchPatterns :: "(string \<Rightarrow> string \<Rightarrow> bool) \<Rightarrow> string list \<Rightarrow> string \<Rightarrow> bool" where
  "matchPatterns glob patterns artifact = list_ex (\<lambda>p. glob p artifact) patterns"

definition MatchArtifactFilter_modelled ::
  "(string \<Rightarrow> string \<Rightarrow> bool) \<Rightarrow> string list \<Rightarrow> string list \<Rightarrow> string \<Rightarrow> bool \<times> string option" where
  "MatchArtifactFilter_modelled glob allowedPattern blockedPattern artifact =
     ((allowedPattern = [] \<or> matchPatterns glob allowedPattern artifact) \<and>
      \<not> matchPatterns glob blockedPattern artifact, None)"

text \<open>
  A glob matcher for concrete examples: \<open>*\<close> matches any run of characters, every other
  character matches itself.
\<close>

fun globMatch :: "string \<Rightarrow> string \<Rightarrow> bool" where
  "globMatch [] s = (s = [])"
| "globMatch (p # ps) [] = (p = CHR ''*'' \<and> globMatch ps [])"
| "globMatch (p # ps) (c # cs) =
     (if p = CHR ''*'' then globMatch ps (c # cs) \<or> globMatch (p # ps) cs
      else p = c \<and> globMatch ps cs)"

section \<open>Manifest-list walk (\<open>getManifestList\<close>)\<close>

text \<open>
  A descriptor of a manifest list (only its digest is read), a stored manifest and the
  details returned for it. \<open>types.Digest\<close> is kept as a string; \<open>NewDigest\<close> and
  \<open>String\<close> convert to and from it.
\<close>

record Descriptor =
  desc_Digest :: string

record Manifest =
  m_Digest :: string
  m_ConfigDigest :: string
  m_CreatedAt :: int
  m_TotalSize :: int

record manifestConfig =
  Os :: string
  Arch :: string

record DockerManifestDetails =
  md_Digest :: string
  md_CreatedAt :: string
  md_Size :: string
  md_DownloadsCount :: int
  md_OsArch :: string

text \<open>
  What the walk calls; none of it is among the sources modelled here, so each is a
  parameter:
  \<open>types.NewDigest\<close>, \<open>Digest.String\<close>, \<open>ManifestStore.FindManifestByDigest\<close>
  (registry id, image, digest), \<open>getManifestConfig\<close> (config digest, root identifier;
  the result may be nil), \<open>GetTimeInMs\<close> and \<open>GetSize\<close>.
\<close>

record ManifestEnv =
  NewDigest :: "string \<Rightarrow> error + string"
  Digest_String :: "string \<Rightarrow> string"
  FindManifestByDigest :: "int \<Rightarrow> string \<Rightarrow> string \<Rightarrow> error + Manifest"
  getManifestConfig :: "string \<Rightarrow> string \<Rightarrow> error + manifestConfig option"
  GetTimeInMs :: "int \<Rightarrow> string"
  GetSize :: "int \<Rightarrow> string"

definition getManifestDetails ::
  "ManifestEnv \<Rightarrow> Manifest \<Rightarrow> manifestConfig option \<Rightarrow> int \<Rightarrow> DockerManifestDetails" where
  "getManifestDetails env m mConfig downloadsCount =
     (let createdAt = GetTimeInMs env (m_CreatedAt m);
          size = GetSize env (m_TotalSize m);
          manifestDetails = \<lparr>md_Digest = Digest_String env (m_Digest m),
                             md_CreatedAt = createdAt,
                             md_Size = size,
                             md_DownloadsCount = downloadsCount,
                             md_OsArch = []\<rparr>
      in case mConfig of
           Some cfg \<Rightarrow> manifestDetails\<lparr>md_OsArch := Os cfg @ ''/'' @ Arch cfg\<rparr>
         | None \<Rightarrow> manifestDetails)"

text \<open>
  The loop of \<open>getManifestList\<close> over the child descriptors, with the list built so
  far.
\<close>

fun getManifestList_loop ::
  "ManifestEnv \<Rightarrow> Registry \<Rightarrow> string \<Rightarrow> string \<Rightarrow> int \<Rightarrow> Descriptor list \<Rightarrow>
   DockerManifestDetails list \<Rightarrow> error + DockerManifestDetails list" where
  "getManifestList_loop env registry' imageName rootId downloadCount [] manifestDetailsList =
     Inr manifestDetailsList"
| "getManifestList_loop env registry' imageName rootId downloadCount (manifestEntry # rest)
     manifestDetailsList =
     (case NewDigest env (desc_Digest manifestEntry) of
        Inl err \<Rightarrow> Inl err
      | Inr d \<Rightarrow>
          (case FindManifestByDigest env (reg_ID registry') imageName d of
             Inl err \<Rightarrow>
               if errorsIs err ErrResourceNotFound then
                 (if reg_Type registry' = RegistryTypeUPSTREAM
                  then getManifestList_loop env registry' imageName rootId downloadCount rest
                         manifestDetailsList
                  else Inl (ErrManifestNotFound (Digest_String env d)))
               else Inl err
           | Inr referencedManifest \<Rightarrow>
               (case getManifestConfig env (m_ConfigDigest referencedManifest) rootId of
                  Inl err \<Rightarrow> Inl err
                | Inr mConfig \<Rightarrow>
                    getManifestList_loop env registry' imageName rootId downloadCount rest
                      (manifestDetailsList @
                         [getManifestDetails env referencedManifest mConfig downloadCount]))))"

definition getManifestList ::
  "ManifestEnv \<Rightarrow> Descriptor list \<Rightarrow> Registry \<Rightarrow> string \<Rightarrow> string \<Rightarrow> int \<Rightarrow>
   error + DockerManifestDetails list" where
  "getManifestList env reqManifest registry' imageName rootId downloadCount =
     getManifestList_loop env registry' imageName rootId downloadCount reqManifest []"

section \<open>Registry deletion (\<open>DeleteRegistry\<close>)\<close>

text \<open>
  The persistent state: the metadata tables that the deletion touches, the blob records
  and the content-addressed objects, and the audit log. A row of a registry-scoped table
  carries the id of its registry first.
\<close>

record DB =
  downloadStats :: "(int \<times> string) list"
  bandwidthStats :: "(int \<times> string) list"
  images :: "(int \<times> string) list"
  registries :: "Registry list"
  upstreamProxyConfigs :: "(int \<times> string) list"
  blobs :: "(string \<times> nat) list"
  casObjects :: "(string \<times> string) list"
  auditLog :: "(string \<times> string \<times> string) list"

record RegistryRequestBaseInfo =
  ri_RegistryID :: int
  ri_parentID :: int
  ri_RegistryIdentifier :: string
  ri_ParentRef :: string

text \<open>The store methods that write, as the source calls them.\<close>

datatype storeCall =
    DeleteDownloadStatByRegistryID int
  | DeleteBandwidthStatByRegistryID int
  | DeleteByRegistryID int
  | RegistryRepository_Delete int string
  | UpstreamProxyStore_Delete int string
  | AuditService_Log string string string

text \<open>
  Modelled from the spec: the store implementations (\<open>ImageStore\<close>,
  \<open>RegistryRepository\<close>, \<open>UpstreamProxyStore\<close>, \<open>AuditService\<close>) are outside the
  sources modelled here. Each delete removes the rows of its own table that belong to the registry
  ("deletion of a registry cascades through tags, manifests, images, but NOT blobs"); the
  audit call appends an entry (principal, resource type, resource name).
\<close>

fun applyCall :: "storeCall \<Rightarrow> DB \<Rightarrow> DB" where
  "applyCall (DeleteDownloadStatByRegistryID rid) db =
     db\<lparr>downloadStats := filter (\<lambda>row. fst row \<noteq> rid) (downloadStats db)\<rparr>"
| "applyCall (DeleteBandwidthStatByRegistryID rid) db =
     db\<lparr>bandwidthStats := filter (\<lambda>row. fst row \<noteq> rid) (bandwidthStats db)\<rparr>"
| "applyCall (DeleteByRegistryID rid) db =
     db\<lparr>images := filter (\<lambda>row. fst row \<noteq> rid) (images db)\<rparr>"
| "applyCall (RegistryRepository_Delete pid name) db =
     db\<lparr>registries :=
          filter (\<lambda>r. \<not> (reg_ParentID r = pid \<and> reg_Name r = name)) (registries db)\<rparr>"
| "applyCall (UpstreamProxyStore_Delete pid name) db =
     db\<lparr>upstreamProxyConfigs := filter (\<lambda>row. row \<noteq> (pid, name)) (upstreamProxyConfigs db)\<rparr>"
| "applyCall (AuditService_Log principal' resourceType name) db =
     db\<lparr>auditLog := auditLog db @ [(principal', resourceType, name)]\<rparr>"

text \<open>
  What the controller reads and checks; none of it is among the sources modelled here, so each is a
  parameter. A lookup takes the current state. \<open>c_GetByParentIDAndName\<close> returns the
  Go pair of a pointer (possibly nil) and an error. \<open>c_fault\<close> says which store write
  returns an error (the write then has no effect).
\<close>

record APIController =
  c_GetRegistryRequestBaseInfo :: "DB \<Rightarrow> string \<Rightarrow> error + RegistryRequestBaseInfo"
  c_SpaceStore_FindByRef :: "DB \<Rightarrow> string \<Rightarrow> error + Space"
  c_CheckRegistry :: "string \<Rightarrow> Space \<Rightarrow> string \<Rightarrow> error option"
  c_GetByParentIDAndName :: "DB \<Rightarrow> int \<Rightarrow> string \<Rightarrow> Registry option \<times> error option"
  c_FetchUpstreamProxyIDs :: "DB \<Rightarrow> string list \<Rightarrow> int \<Rightarrow> error + int list"
  c_FetchRegistriesIDByUpstreamProxyID :: "DB \<Rightarrow> string \<Rightarrow> int \<Rightarrow> error + int list"
  c_RegistryRepository_Get :: "DB \<Rightarrow> int \<Rightarrow> error + Registry"
  c_SpaceStore_Find :: "DB \<Rightarrow> int \<Rightarrow> error + Space"
  c_FormatInt :: "int \<Rightarrow> string"
  c_fault :: "storeCall \<Rightarrow> DB \<Rightarrow> error option"

definition execCall :: "APIController \<Rightarrow> storeCall \<Rightarrow> DB \<Rightarrow> error option \<times> DB" where
  "execCall c call db =
     (case c_fault c call db of
        Some e \<Rightarrow> (Some e, db)
      | None \<Rightarrow> (None, applyCall call db))"

text \<open>Go's \<open>if err != nil { return err }\<close> between two steps on the state.\<close>

definition andThen ::
  "error option \<times> DB \<Rightarrow> (DB \<Rightarrow> error option \<times> DB) \<Rightarrow> error option \<times> DB" where
  "andThen r f = (case r of (Some e, db) \<Rightarrow> (Some e, db) | (None, db) \<Rightarrow> f db)"

definition wrapErr :: "string \<Rightarrow> error option \<times> DB \<Rightarrow> error option \<times> DB" where
  "wrapErr msg r = (case r of (Some e, db) \<Rightarrow> (Some (ErrWrapped msg e), db) | (None, db) \<Rightarrow> (None, db))"

text \<open>
  Modelled from the spec: \<open>c.tx.WithTx\<close> is outside the sources modelled here; a transaction
  whose body returns an error is rolled back.
\<close>

definition WithTx :: "(DB \<Rightarrow> error option \<times> DB) \<Rightarrow> DB \<Rightarrow> error option \<times> DB" where
  "WithTx f db = (case f db of (Some e, _) \<Rightarrow> (Some e, db) | (None, db') \<Rightarrow> (None, db'))"

text \<open>
  \<open>deleteRegistryWithAudit\<close>: four deletes in the order of the source, each ending the
  function on error; an error of the audit call is only logged.
\<close>

definition deleteRegistryWithAudit ::
  "APIController \<Rightarrow> RegistryRequestBaseInfo \<Rightarrow> Registry \<Rightarrow> string \<Rightarrow> string \<Rightarrow> DB \<Rightarrow>
   error option \<times> DB" where
  "deleteRegistryWithAudit c regInfo registry' principal' parentRef db =
     andThen (execCall c (DeleteDownloadStatByRegistryID (ri_RegistryID regInfo)) db) (\<lambda>db.
     andThen (execCall c (DeleteBandwidthStatByRegistryID (ri_RegistryID regInfo)) db) (\<lambda>db.
     andThen (execCall c (DeleteByRegistryID (ri_RegistryID regInfo)) db) (\<lambda>db.
     andThen (execCall c (RegistryRepository_Delete (ri_parentID regInfo)
                            (ri_RegistryIdentifier regInfo)) db) (\<lambda>db.
     (None, snd (execCall c (AuditService_Log principal' ''registry'' (reg_Name registry')) db))))))"

text \<open>
  \<open>deleteUpstreamProxyWithAudit\<close>: refuses when the upstream proxy is still used by a
  registry, otherwise deletes the upstream proxy configuration.
\<close>

definition upstreamProxyInUse ::
  "APIController \<Rightarrow> RegistryRequestBaseInfo \<Rightarrow> string \<Rightarrow> DB \<Rightarrow> error option" where
  "upstreamProxyInUse c regInfo registryName db =
     (case c_FetchUpstreamProxyIDs c db [ri_RegistryIdentifier regInfo] (ri_parentID regInfo) of
        Inl err \<Rightarrow> Some (ErrWrapped ''failed to fectch upstream proxy IDs '' err)
      | Inr upstreamProxies \<Rightarrow>
          (if length upstreamProxies > 0 then
             (case c_FetchRegistriesIDByUpstreamProxyID c db
                     (c_FormatInt c (upstreamProxies ! 0)) (ri_parentID regInfo) of
                Inl err \<Rightarrow> Some (ErrWrapped ''failed to fetch registryIDs IDs '' err)
              | Inr registryIDs \<Rightarrow>
                  (if length registryIDs > 0 then
                     (case c_RegistryRepository_Get c db (registryIDs ! 0) of
                        Inl err \<Rightarrow> Some (ErrWrapped ''failed to fetch registry '' err)
                      | Inr usedBy \<Rightarrow>
                          (case c_SpaceStore_Find c db (reg_ParentID usedBy) of
                             Inl err \<Rightarrow> Some (ErrWrapped ''failed to fetch space details'' err)
                           | Inr spaceDetails \<Rightarrow>
                               Some (ErrUpstreamProxyInUse registryName (reg_Name usedBy))))
                   else None))
           else None))"

definition deleteUpstreamProxyWithAudit ::
  "APIController \<Rightarrow> RegistryRequestBaseInfo \<Rightarrow> string \<Rightarrow> string \<Rightarrow> string \<Rightarrow> DB \<Rightarrow>
   error option \<times> DB" where
  "deleteUpstreamProxyWithAudit c regInfo principal' parentRef registryName db =
     (case upstreamProxyInUse c regInfo registryName db of
        Some err \<Rightarrow> (Some err, db)
      | None \<Rightarrow>
          andThen (execCall c (UpstreamProxyStore_Delete (ri_parentID regInfo)
                                 (ri_RegistryIdentifier regInfo)) db) (\<lambda>db.
          (None, snd (execCall c (AuditService_Log principal' ''registryUpstreamProxy''
                                    registryName) db))))"

datatype deleteResponse =
    DeleteRegistry400 error
  | DeleteRegistry403 error
  | DeleteRegistry404
  | DeleteRegistry500 error
  | DeleteRegistry200

datatype deleteOutcome =
    DeletePanic panic
  | DeleteReturn deleteResponse "error option"

text \<open>
  \<open>DeleteRegistry\<close>: the response, the Go error returned with it, and the state
  afterwards. \<open>len(repoEntity.Name)\<close> dereferences the pointer before the error is
  looked at. \<open>principal'\<close> is \<open>session.Principal\<close>.
\<close>

definition DeleteRegistry ::
  "APIController \<Rightarrow> string \<Rightarrow> string \<Rightarrow> DB \<Rightarrow> deleteOutcome \<times> DB" where
  "DeleteRegistry c principal' regRef db =
     (case c_GetRegistryRequestBaseInfo c db regRef of
        Inl err \<Rightarrow> (DeleteReturn (DeleteRegistry400 err) (Some err), db)
      | Inr regInfo \<Rightarrow>
     (case c_SpaceStore_FindByRef c db (ri_ParentRef regInfo) of
        Inl err \<Rightarrow> (DeleteReturn (DeleteRegistry400 err) (Some err), db)
      | Inr space \<Rightarrow>
     (case c_CheckRegistry c principal' space (ri_RegistryIdentifier regInfo) of
        Some err \<Rightarrow> (DeleteReturn (DeleteRegistry403 err) (Some err), db)
      | None \<Rightarrow>
     (case c_GetByParentIDAndName c db (ri_parentID regInfo) (ri_RegistryIdentifier regInfo) of
        (None, err) \<Rightarrow> (DeletePanic NilPointerDereference, db)
      | (Some repoEntity, err) \<Rightarrow>
          if length (reg_Name repoEntity) = 0 then (DeleteReturn DeleteRegistry404 None, db)
          else (case err of
                  Some e \<Rightarrow> (DeleteReturn (DeleteRegistry500 e) (Some e), db)
                | None \<Rightarrow>
                    (let r =
                       (if reg_Type repoEntity = RegistryTypeVIRTUAL then
                          WithTx (\<lambda>db.
                            wrapErr ''failed to delete registry''
                              (deleteRegistryWithAudit c regInfo repoEntity principal'
                                 (ri_ParentRef regInfo) db)) db
                        else
                          WithTx (\<lambda>db.
                            andThen
                              (wrapErr ''failed to delete upstream proxy''
                                 (deleteUpstreamProxyWithAudit c regInfo principal'
                                    (ri_ParentRef regInfo) (reg_Name repoEntity) db))
                              (\<lambda>db.
                                 wrapErr ''failed to delete registry''
                                   (deleteRegistryWithAudit c regInfo repoEntity principal'
                                      (ri_ParentRef regInfo) db))) db)
                     in (case fst r of
                           Some e \<Rightarrow> (DeleteReturn (DeleteRegistry500 e) None, snd r)
                         | None \<Rightarrow> (DeleteReturn DeleteRegistry200 None, snd r))))))))"

text \<open>
  The two effects a deletion is compared against: the blob records and the
  content-addressed objects are the same before and after; the rows of the registry are
  gone from the four registry-scoped tables and every other row of them is kept.
\<close>

definition keepsBlobs :: "DB \<Rightarrow> DB \<Rightarrow> bool" where
  "keepsBlobs db db' = (blobs db' = blobs db \<and> casObjects db' = casObjects db)"

definition registryRowsRemoved :: "RegistryRequestBaseInfo \<Rightarrow> DB \<Rightarrow> DB \<Rightarrow> bool" where
  "registryRowsRemoved regInfo db db' =
     (downloadStats db' = filter (\<lambda>row. fst row \<noteq> ri_RegistryID regInfo) (downloadStats db) \<and>
      bandwidthStats db' = filter (\<lambda>row. fst row \<noteq> ri_RegistryID regInfo) (bandwidthStats db) \<and>
      images db' = filter (\<lambda>row. fst row \<noteq> ri_RegistryID regInfo) (images db) \<and>
      registries db' =
        filter (\<lambda>r. \<not> (reg_ParentID r = ri_parentID regInfo \<and>
                         reg_Name r = ri_RegistryIdentifier regInfo)) (registries db))"

definition sameRegistryTables :: "DB \<Rightarrow> DB \<Rightarrow> bool" where
  "sameRegistryTables db db' =
     (downloadStats db' = downloadStats db \<and> bandwidthStats db' = bandwidthStats db \<and>
      images db' = images db \<and> registries db' = registries db)"

section \<open>Client setup details (get_client_setup_details.go)\<close>

text \<open>
  The response types of the generated API. A Go pointer field is an option (\<open>None\<close>
  is nil).
\<close>

datatype ClientSetupStepType = ClientSetupStepTypeStatic | ClientSetupStepTypeGenerateToken

datatype Status = StatusSUCCESS

record ClientSetupStepCommand =
  cmd_Label :: "string option"
  cmd_Value :: "string option"

record ClientSetupStep =
  step_Header :: "string option"
  step_Commands :: "ClientSetupStepCommand list option"
  step_Type :: "ClientSetupStepType option"

record ClientSetupSection =
  sec_Header :: "string option"
  sec_Steps :: "ClientSetupStep list option"

record ClientSetupDetails =
  MainHeader :: string
  SecHeader :: string
  Sections :: "ClientSetupSection list"

record ClientSetupDetailsResponse =
  Data :: ClientSetupDetails
  Status :: Status

text \<open>
  What \<open>replacePlaceholders\<close> calls to derive the values; none of it is among the sources modelled here, so each is a parameter: the first result of \<open>paths.DisectRoot\<close>, the second
  result of \<open>paths.DisectLeaf\<close>, \<open>URLProvider.RegistryURL\<close>,
  \<open>common.TrimURLScheme\<close> and \<open>common.GetHost\<close>.
\<close>

record SetupEnv =
  DisectRoot :: "string \<Rightarrow> string"
  DisectLeaf :: "string \<Rightarrow> string"
  RegistryURL :: "string \<Rightarrow> string"
  TrimURLScheme :: "string \<Rightarrow> string"
  GetHost :: "string \<Rightarrow> string"

text \<open>
  One assignment of \<open>replaceText\<close>:
  \<open>cmd.Value = stringPtr(strings.ReplaceAll(*cmd.Value, old, new))\<close>, and the same for
  the label. Dereferencing a nil pointer panics.
\<close>

definition replaceValue ::
  "string \<Rightarrow> string \<Rightarrow> ClientSetupStepCommand \<Rightarrow> error + ClientSetupStepCommand" where
  "replaceValue old new cmd =
     (case cmd_Value cmd of
        None \<Rightarrow> Inl (Panic NilPointerDereference)
      | Some v \<Rightarrow> Inr (cmd\<lparr>cmd_Value := Some (ReplaceAll v old new)\<rparr>))"

definition replaceLabel ::
  "string \<Rightarrow> string \<Rightarrow> ClientSetupStepCommand \<Rightarrow> error + ClientSetupStepCommand" where
  "replaceLabel old new cmd =
     (case cmd_Label cmd of
        None \<Rightarrow> Inl (Panic NilPointerDereference)
      | Some l \<Rightarrow> Inr (cmd\<lparr>cmd_Label := Some (ReplaceAll l old new)\<rparr>))"

text \<open>
  \<open>replaceText\<close> on the \<open>i\<close>-th command of a step's command slice. The index comes
  from \<open>range\<close> over the same slice and is in range; the slice is updated in place.
\<close>

definition replaceText ::
  "SetupEnv \<Rightarrow> string \<Rightarrow> ClientSetupStepCommand list \<Rightarrow> nat \<Rightarrow> string \<Rightarrow> string \<Rightarrow>
   string option \<Rightarrow> string option \<Rightarrow> error + ClientSetupStepCommand list" where
  "replaceText env username commands i hostname repoName imageParam tagParam =
     bindE (if username \<noteq> [] then
              bindE (replaceValue ''<USERNAME>'' username (commands ! i))
                (replaceLabel ''<USERNAME>'' username)
            else Inr (commands ! i)) (\<lambda>cmd.
     bindE (if hostname \<noteq> [] then replaceValue ''<HOSTNAME>'' hostname cmd else Inr cmd) (\<lambda>cmd.
     bindE (if hostname \<noteq> [] then replaceValue ''<LOGIN_HOSTNAME>'' (GetHost env hostname) cmd
            else Inr cmd) (\<lambda>cmd.
     bindE (if repoName \<noteq> [] then replaceValue ''<REGISTRY_NAME>'' repoName cmd else Inr cmd) (\<lambda>cmd.
     bindE (case imageParam of Some img \<Rightarrow> replaceValue ''<IMAGE_NAME>'' img cmd
                             | None \<Rightarrow> Inr cmd) (\<lambda>cmd.
     bindE (case tagParam of Some tg \<Rightarrow> replaceValue ''<TAG>'' tg cmd
                           | None \<Rightarrow> Inr cmd) (\<lambda>cmd.
     Inr (commands[i := cmd])))))))"

text \<open>
  The three loops of \<open>replacePlaceholders\<close>. The sections slice, the step slices and the
  command slices are shared between the caller's struct and the copy passed in, so the
  assignments are seen by the caller: the model returns the updated details.
\<close>

fun replaceCommands ::
  "SetupEnv \<Rightarrow> string \<Rightarrow> string \<Rightarrow> string \<Rightarrow> string option \<Rightarrow> string option \<Rightarrow>
   nat list \<Rightarrow> ClientSetupStepCommand list \<Rightarrow> error + ClientSetupStepCommand list" where
  "replaceCommands env username hostname registryName imageParam tagParam [] commands =
     Inr commands"
| "replaceCommands env username hostname registryName imageParam tagParam (i # is) commands =
     bindE (replaceText env username commands i hostname registryName imageParam tagParam)
       (replaceCommands env username hostname registryName imageParam tagParam is)"

fun replaceSteps ::
  "SetupEnv \<Rightarrow> string \<Rightarrow> string \<Rightarrow> string \<Rightarrow> string option \<Rightarrow> string option \<Rightarrow>
   ClientSetupStep list \<Rightarrow> error + ClientSetupStep list" where
  "replaceSteps env username hostname registryName imageParam tagParam [] = Inr []"
| "replaceSteps env username hostname registryName imageParam tagParam (st # sts) =
     bindE (case step_Commands st of
              None \<Rightarrow> Inr st
            | Some commands \<Rightarrow>
                bindE (replaceCommands env username hostname registryName imageParam tagParam
                         [0 ..< length commands] commands)
                  (\<lambda>commands'. Inr (st\<lparr>step_Commands := Some commands'\<rparr>))) (\<lambda>st'.
     bindE (replaceSteps env username hostname registryName imageParam tagParam sts) (\<lambda>sts'.
     Inr (st' # sts')))"

fun replaceSections ::
  "SetupEnv \<Rightarrow> string \<Rightarrow> string \<Rightarrow> string \<Rightarrow> string option \<Rightarrow> string option \<Rightarrow>
   ClientSetupSection list \<Rightarrow> error + ClientSetupSection list" where
  "replaceSections env username hostname registryName imageParam tagParam [] = Inr []"
| "replaceSections env username hostname registryName imageParam tagParam (s # ss) =
     bindE (case sec_Steps s of
              None \<Rightarrow> Inr s
            | Some steps \<Rightarrow>
                bindE (replaceSteps env username hostname registryName imageParam tagParam steps)
                  (\<lambda>steps'. Inr (s\<lparr>sec_Steps := Some steps'\<rparr>))) (\<lambda>s'.
     bindE (replaceSections env username hostname registryName imageParam tagParam ss) (\<lambda>ss'.
     Inr (s' # ss')))"

definition replacePlaceholders ::
  "SetupEnv \<Rightarrow> ClientSetupDetails \<Rightarrow> string \<Rightarrow> string \<Rightarrow> string option \<Rightarrow> string option \<Rightarrow>
   error + ClientSetupDetails" where
  "replacePlaceholders env clientSetupDetails username regRef imageParam tagParam =
     (let rootSpace = DisectRoot env regRef;
          registryName = DisectLeaf env regRef;
          hostname = TrimURLScheme env (RegistryURL env rootSpace)
      in bindE (replaceSections env username hostname registryName imageParam tagParam
                  (Sections clientSetupDetails))
           (\<lambda>sections'. Inr (clientSetupDetails\<lparr>Sections := sections'\<rparr>)))"

text \<open>The two struct literals of \<open>GenerateClientSetupDetails\<close>, before replacement.\<close>

definition helmClientSetupDetails :: ClientSetupDetails where
  "helmClientSetupDetails =
     (let loginUsernameLabel = ''Username: <USERNAME>'';
          loginUsernameValue = ''<USERNAME>'';
          loginPasswordLabel = ''Password: *see step 2*'';
          blankString = [];
          header1 = ''Login to Helm'';
          section1step1Header = ''Run this Helm command in your terminal to authenticate the client.'';
          helmLoginValue = ''helm registry login <LOGIN_HOSTNAME>'';
          section1step1Commands =
            [\<lparr>cmd_Label = Some blankString, cmd_Value = Some helmLoginValue\<rparr>,
             \<lparr>cmd_Label = Some loginUsernameLabel, cmd_Value = Some loginUsernameValue\<rparr>,
             \<lparr>cmd_Label = Some loginPasswordLabel, cmd_Value = Some blankString\<rparr>];
          section1step2Header = ''For the Password field above, generate an identity token'';
          section1 =
            [\<lparr>step_Header = Some section1step1Header,
              step_Commands = Some section1step1Commands,
              step_Type = Some ClientSetupStepTypeStatic\<rparr>,
             \<lparr>step_Header = Some section1step2Header,
              step_Commands = None,
              step_Type = Some ClientSetupStepTypeGenerateToken\<rparr>];
          header2 = ''Push a version'';
          section2step1Header =
            ''Run this Helm push command in your terminal to push a chart in OCI form.'' @
            '' Note: Make sure you add oci:// prefix to the repository URL.'';
          helmPushValue = ''helm push <CHART_TGZ_FILE> oci://<HOSTNAME>/<REGISTRY_NAME>'';
          section2step1Commands =
            [\<lparr>cmd_Label = Some blankString, cmd_Value = Some helmPushValue\<rparr>];
          section2 =
            [\<lparr>step_Header = Some section2step1Header,
              step_Commands = Some section2step1Commands,
              step_Type = Some ClientSetupStepTypeStatic\<rparr>];
          header3 = ''Pull a version'';
          section3step1Header =
            ''Run this Helm command in your terminal to pull a specific chart version.'';
          helmPullValue =
            ''helm pull oci://<HOSTNAME>/<REGISTRY_NAME>/<IMAGE_NAME> --version <TAG>'';
          section3step1Commands =
            [\<lparr>cmd_Label = Some blankString, cmd_Value = Some helmPullValue\<rparr>];
          section3 =
            [\<lparr>step_Header = Some section3step1Header,
              step_Commands = Some section3step1Commands,
              step_Type = Some ClientSetupStepTypeStatic\<rparr>]
      in \<lparr>MainHeader = ''Helm Client Setup'',
          SecHeader =
            ''Follow these instructions to install/use Helm artifacts or compatible packages.'',
          Sections =
            [\<lparr>sec_Header = Some header1, sec_Steps = Some section1\<rparr>,
             \<lparr>sec_Header = Some header2, sec_Steps = Some section2\<rparr>,
             \<lparr>sec_Header = Some header3, sec_Steps = Some section3\<rparr>]\<rparr>)"

definition dockerClientSetupDetails :: ClientSetupDetails where
  "dockerClientSetupDetails =
     (let loginUsernameLabel = ''Username: <USERNAME>'';
          loginUsernameValue = ''<USERNAME>'';
          loginPasswordLabel = ''Password: *see step 2*'';
          blankString = [];
          header1 = ''Login to Docker'';
          section1step1Header =
            ''Run this Docker command in your terminal to authenticate the client.'';
          dockerLoginValue = ''docker login <LOGIN_HOSTNAME>'';
          section1step1Commands =
            [\<lparr>cmd_Label = Some blankString, cmd_Value = Some dockerLoginValue\<rparr>,
             \<lparr>cmd_Label = Some loginUsernameLabel, cmd_Value = Some loginUsernameValue\<rparr>,
             \<lparr>cmd_Label = Some loginPasswordLabel, cmd_Value = Some blankString\<rparr>];
          section1step2Header = ''For the Password field above, generate an identity token'';
          section1 =
            [\<lparr>step_Header = Some section1step1Header,
              step_Commands = Some section1step1Commands,
              step_Type = Some ClientSetupStepTypeStatic\<rparr>,
             \<lparr>step_Header = Some section1step2Header,
              step_Commands = None,
              step_Type = Some ClientSetupStepTypeGenerateToken\<rparr>];
          header2 = ''Pull an image'';
          section2step1Header = ''Run this Docker command in your terminal to pull image.'';
          dockerPullValue = ''docker pull <HOSTNAME>/<REGISTRY_NAME>/<IMAGE_NAME>:<TAG>'';
          section2step1Commands =
            [\<lparr>cmd_Label = Some blankString, cmd_Value = Some dockerPullValue\<rparr>];
          section2 =
            [\<lparr>step_Header = Some section2step1Header,
              step_Commands = Some section2step1Commands,
              step_Type = Some ClientSetupStepTypeStatic\<rparr>];
          header3 = ''Retag and Push the image'';
          section3step1Header = ''Run this Docker command in your terminal to tag the image.'';
          dockerTagValue =
            ''docker tag <IMAGE_NAME>:<TAG> <HOSTNAME>/<REGISTRY_NAME>/<IMAGE_NAME>:<TAG>'';
          section3step1Commands =
            [\<lparr>cmd_Label = Some blankString, cmd_Value = Some dockerTagValue\<rparr>];
          section3step2Header = ''Run this Docker command in your terminal to push the image.'';
          dockerPushValue = ''docker push <HOSTNAME>/<REGISTRY_NAME>/<IMAGE_NAME>:<TAG>'';
          section3step2Commands =
            [\<lparr>cmd_Label = Some blankString, cmd_Value = Some dockerPushValue\<rparr>];
          section3 =
            [\<lparr>step_Header = Some section3step1Header,
              step_Commands = Some section3step1Commands,
              step_Type = Some ClientSetupStepTypeStatic\<rparr>,
             \<lparr>step_Header = Some section3step2Header,
              step_Commands = Some section3step2Commands,
              step_Type = Some ClientSetupStepTypeStatic\<rparr>]
      in \<lparr>MainHeader = ''Docker Client Setup'',
          SecHeader =
            ''Follow these instructions to install/use Docker artifacts or compatible packages.'',
          Sections =
            [\<lparr>sec_Header = Some header1, sec_Steps = Some section1\<rparr>,
             \<lparr>sec_Header = Some header3, sec_Steps = Some section3\<rparr>,
             \<lparr>sec_Header = Some header2, sec_Steps = Some section2\<rparr>]\<rparr>)"

text \<open>
  \<open>GenerateClientSetupDetails\<close>; \<open>username\<close> is \<open>session.Principal.Email\<close>.
\<close>

definition GenerateClientSetupDetails ::
  "SetupEnv \<Rightarrow> string \<Rightarrow> string \<Rightarrow> string option \<Rightarrow> string option \<Rightarrow> string \<Rightarrow>
   error + ClientSetupDetailsResponse" where
  "GenerateClientSetupDetails env username packageType imageParam tagParam registryRef =
     (if packageType = ''HELM'' then
        bindE (replacePlaceholders env helmClientSetupDetails username registryRef
                 imageParam tagParam)
          (\<lambda>clientSetupDetails. Inr \<lparr>Data = clientSetupDetails, Status = StatusSUCCESS\<rparr>)
      else
        bindE (replacePlaceholders env dockerClientSetupDetails username registryRef
                 imageParam tagParam)
          (\<lambda>clientSetupDetails. Inr \<lparr>Data = clientSetupDetails, Status = StatusSUCCESS\<rparr>))"

text \<open>
  The substitution as the spec words it: each of the six placeholder tokens is replaced in
  a command by the value derived from the session and the request, when that value is
  present (a non-empty string, a non-nil parameter). \<open>tokenValues\<close> lists the tokens
  with their values in the order of the source; \<open>placeholders\<close> derives the host name
  and the registry name from the registry reference first.
\<close>

definition presentString :: "string \<Rightarrow> string option" where
  "presentString s = (if s \<noteq> [] then Some s else None)"

definition tokenValues ::
  "SetupEnv \<Rightarrow> string \<Rightarrow> string \<Rightarrow> string \<Rightarrow> string option \<Rightarrow> string option \<Rightarrow>
   (string \<times> string option) list" where
  "tokenValues env username hostname registryName imageParam tagParam =
     [(''<USERNAME>'', presentString username),
      (''<HOSTNAME>'', presentString hostname),
      (''<LOGIN_HOSTNAME>'', map_option (GetHost env) (presentString hostname)),
      (''<REGISTRY_NAME>'', presentString registryName),
      (''<IMAGE_NAME>'', imageParam),
      (''<TAG>'', tagParam)]"

definition placeholders ::
  "SetupEnv \<Rightarrow> string \<Rightarrow> string \<Rightarrow> string option \<Rightarrow> string option \<Rightarrow> (string \<times> string option) list"
  where
  "placeholders env username regRef imageParam tagParam =
     tokenValues env username
       (TrimURLScheme env (RegistryURL env (DisectRoot env regRef)))
       (DisectLeaf env regRef) imageParam tagParam"

fun substitute :: "(string \<times> string option) list \<Rightarrow> string \<Rightarrow> string" where
  "substitute [] s = s"
| "substitute ((token, None) # rest) s = substitute rest s"
| "substitute ((token, Some v) # rest) s = substitute rest (ReplaceAll s token v)"

text \<open>The values and the labels of all commands of a setup, in order.\<close>

definition stepCommands :: "ClientSetupStep \<Rightarrow> ClientSetupStepCommand list" where
  "stepCommands st = (case step_Commands st of None \<Rightarrow> [] | Some cs \<Rightarrow> cs)"

definition sectionCommands :: "ClientSetupSection \<Rightarrow> ClientSetupStepCommand list" where
  "sectionCommands s =
     (case sec_Steps s of None \<Rightarrow> [] | Some sts \<Rightarrow> concat (map stepCommands sts))"

definition commandValues :: "ClientSetupDetails \<Rightarrow> string option list" where
  "commandValues d = map cmd_Value (concat (map sectionCommands (Sections d)))"

definition commandLabels :: "ClientSetupDetails \<Rightarrow> string option list" where
  "commandLabels d = map cmd_Label (concat (map sectionCommands (Sections d)))"

section \<open>Example data\<close>

text \<open>
  A small tenant used to evaluate the definitions: one root space, a VIRTUAL registry
  \<open>reg\<close> that blocks \<open>*:latest\<close>, and an UPSTREAM registry \<open>hub\<close> without patterns.
  \<open>exDigestParse\<close> stands in for \<open>digest.Parse\<close> on the examples: it accepts
  \<open>sha256:\<close> followed by 64 lower-case hexadecimal digits, and \<open>exDigest c\<close> is such a
  digest, with the digit \<open>c\<close> 64 times.
\<close>

definition exRootSpace :: Space where
  "exRootSpace = \<lparr>space_ID = 1, space_Identifier = ''root''\<rparr>"

definition exVirtualReg :: Registry where
  "exVirtualReg = \<lparr>reg_ID = 7, reg_ParentID = 1, reg_Name = ''reg'', reg_Type = ''VIRTUAL'',
                    AllowedPattern = [], BlockedPattern = [''*:latest'']\<rparr>"

definition exUpstreamReg :: Registry where
  "exUpstreamReg = \<lparr>reg_ID = 8, reg_ParentID = 1, reg_Name = ''hub'', reg_Type = ''UPSTREAM'',
                     AllowedPattern = [], BlockedPattern = []\<rparr>"

definition exDigest :: "char \<Rightarrow> string" where
  "exDigest c = ''sha256:'' @ replicate 64 c"

definition exDigestParse :: "string \<Rightarrow> bool" where
  "exDigestParse s =
     (take 7 s = ''sha256:'' \<and> length s = 71 \<and>
      list_all (\<lambda>c. c \<in> set ''0123456789abcdef'') (drop 7 s))"

definition exHandler :: Handler where
  "exHandler =
     \<lparr>ValidateIdentifier = (\<lambda>s. if s = [] then Some ''identifier is empty'' else None),
      FindByRefCaseInsensitive = (\<lambda>s. if s = ''root'' then Some exRootSpace else None),
      GetByRootParentIDAndName =
        (\<lambda>i n. if i = 1 \<and> n = ''reg'' then Some exVirtualReg
               else if i = 1 \<and> n = ''hub'' then Some exUpstreamReg
               else None),
      SpaceStore_Find = (\<lambda>i. if i = 1 then Some exRootSpace else None),
      MatchArtifactFilter = MatchArtifactFilter_modelled globMatch,
      digestParse = exDigestParse\<rparr>"

definition exEmptyHandler :: Handler where
  "exEmptyHandler = exHandler\<lparr>FindByRefCaseInsensitive := (\<lambda>s. None)\<rparr>"

definition exNoQuery :: "string \<rightharpoonup> string list" where
  "exNoQuery = (\<lambda>k. None)"

definition exLatestReq :: Request where
  "exLatestReq = \<lparr>URL_Path = ''/v2/root/reg/alpine/manifests/latest'', URL_Query = exNoQuery\<rparr>"

definition exLatestVars :: pathVars where
  "exLatestVars = \<lparr>rootIdentifier = ''root'', registry = ''reg'', image = ''alpine'',
                    ref = ''latest'', dgst = [], tag = ''latest''\<rparr>"

definition exBlobReq :: Request where
  "exBlobReq = \<lparr>URL_Path = ''/v2/root/hub/alpine/blobs/'' @ exDigest CHR ''a'', URL_Query = exNoQuery\<rparr>"

definition exBlobVars :: pathVars where
  "exBlobVars = \<lparr>rootIdentifier = ''root'', registry = ''hub'', image = ''alpine'',
                  ref = [], dgst = exDigest CHR ''a'', tag = []\<rparr>"

definition exInvalidReq :: Request where
  "exInvalidReq = \<lparr>URL_Path = ''/v2/root/reg/img/foo/bar'', URL_Query = exNoQuery\<rparr>"

definition exInvalidVars :: pathVars where
  "exInvalidVars = \<lparr>rootIdentifier = ''root'', registry = ''reg'', image = ''img'',
                     ref = [], dgst = [], tag = []\<rparr>"

definition exInvalidInfo :: RegistryInfo where
  "exInvalidInfo = \<lparr>RootIdentifier = ''root'', RootParentID = 1, ParentID = 1,
                     RegIdentifier = ''reg'', Image = ''img'', Reference = [], Digest = [],
                     Tag = [], Path = ''/v2/root/reg/img/foo/bar''\<rparr>"

definition exDigestReq :: Request where
  "exDigestReq = \<lparr>URL_Path = ''/v2/root/reg/alpine/manifests/'' @ exDigest CHR ''a'', URL_Query = exNoQuery\<rparr>"

definition exDigestVars :: pathVars where
  "exDigestVars = \<lparr>rootIdentifier = ''root'', registry = ''reg'', image = ''alpine'',
                    ref = exDigest CHR ''a'', dgst = exDigest CHR ''a'', tag = []\<rparr>"

definition exShortReq :: Request where
  "exShortReq = \<lparr>URL_Path = ''/v2/root/reg/'', URL_Query = exNoQuery\<rparr>"

definition exRejectAll :: "string list \<Rightarrow> string list \<Rightarrow> string \<Rightarrow> bool \<times> string option" where
  "exRejectAll allowed blocked artifact = (False, Some ''rejected'')"

definition exBlobInfo :: RegistryInfo where
  "exBlobInfo = \<lparr>RootIdentifier = ''root'', RootParentID = 1, ParentID = 1,
                  RegIdentifier = ''hub'', Image = ''alpine'', Reference = [],
                  Digest = exDigest CHR ''a'', Tag = [],
                  Path = ''/v2/root/hub/alpine/blobs/'' @ exDigest CHR ''a''\<rparr>"

text \<open>
  A manifest store that knows the child with digest \<open>exDigest a\<close> only; the examples
  walk a list with the children \<open>exDigest a\<close>, \<open>exDigest b\<close>, \<open>exDigest a\<close>.
\<close>

definition exManifestEnv :: ManifestEnv where
  "exManifestEnv =
     \<lparr>NewDigest = (\<lambda>s. if exDigestParse s then Inr s else Inl (ErrOther ''invalid digest'')),
      Digest_String = (\<lambda>d. d),
      FindManifestByDigest =
        (\<lambda>rid img d. if d = exDigest CHR ''a''
                      then Inr \<lparr>m_Digest = exDigest CHR ''a'', m_ConfigDigest = exDigest CHR ''c'',
                                m_CreatedAt = 0, m_TotalSize = 10\<rparr>
                      else Inl ErrResourceNotFound),
      getManifestConfig = (\<lambda>d r. Inr (Some \<lparr>Os = ''linux'', Arch = ''amd64''\<rparr>)),
      GetTimeInMs = (\<lambda>t. ''0''),
      GetSize = (\<lambda>n. ''10B'')\<rparr>"

definition exChildA :: Descriptor where "exChildA = \<lparr>desc_Digest = exDigest CHR ''a''\<rparr>"
definition exChildB :: Descriptor where "exChildB = \<lparr>desc_Digest = exDigest CHR ''b''\<rparr>"

definition exDetailsA :: DockerManifestDetails where
  "exDetailsA = \<lparr>md_Digest = exDigest CHR ''a'', md_CreatedAt = ''0'', md_Size = ''10B'',
                  md_DownloadsCount = 3, md_OsArch = ''linux/amd64''\<rparr>"

text \<open>
  A state with the two example registries, their stats and images, and one blob; a
  controller whose lookups read that state, that lets \<open>admin\<close> delete, and whose
  store writes do not fail.
\<close>

definition exDB :: DB where
  "exDB = \<lparr>downloadStats = [(7, ''pull alpine''), (8, ''pull nginx'')],
            bandwidthStats = [(7, ''10 bytes'')],
            images = [(7, ''alpine''), (8, ''nginx'')],
            registries = [exVirtualReg, exUpstreamReg],
            upstreamProxyConfigs = [(1, ''hub'')],
            blobs = [(''sha256:aa'', 10)],
            casObjects = [(''sha256:aa'', ''0123456789'')],
            auditLog = []\<rparr>"

definition exRegInfo :: RegistryRequestBaseInfo where
  "exRegInfo = \<lparr>ri_RegistryID = 7, ri_parentID = 1, ri_RegistryIdentifier = ''reg'',
                 ri_ParentRef = ''root''\<rparr>"

definition exController :: APIController where
  "exController =
     \<lparr>c_GetRegistryRequestBaseInfo =
        (\<lambda>db regRef. if regRef = ''root/reg'' then Inr exRegInfo else Inl ErrResourceNotFound),
      c_SpaceStore_FindByRef =
        (\<lambda>db r. if r = ''root'' then Inr exRootSpace else Inl ErrResourceNotFound),
      c_CheckRegistry =
        (\<lambda>who space name. if who = ''admin'' then None else Some (ErrOther ''forbidden'')),
      c_GetByParentIDAndName =
        (\<lambda>db pid name.
           case find (\<lambda>r. reg_ParentID r = pid \<and> reg_Name r = name) (registries db) of
             None \<Rightarrow> (None, Some ErrResourceNotFound)
           | Some r \<Rightarrow> (Some r, None)),
      c_FetchUpstreamProxyIDs = (\<lambda>db names pid. Inr []),
      c_FetchRegistriesIDByUpstreamProxyID = (\<lambda>db proxy pid. Inr []),
      c_RegistryRepository_Get = (\<lambda>db rid. Inl ErrResourceNotFound),
      c_SpaceStore_Find = (\<lambda>db sid. Inl ErrResourceNotFound),
      c_FormatInt = (\<lambda>i. ''0''),
      c_fault = (\<lambda>call db. None)\<rparr>"

text \<open>A setup environment for a registry \<open>root/reg\<close> served at \<open>pkg.example.com/root\<close>.\<close>

definition exSetupEnv :: SetupEnv where
  "exSetupEnv =
     \<lparr>DisectRoot = (\<lambda>r. takeWhile (\<lambda>c. c \<noteq> CHR ''/'') r),
      DisectLeaf = (\<lambda>r. rev (takeWhile (\<lambda>c. c \<noteq> CHR ''/'') (rev r))),
      RegistryURL = (\<lambda>rootSpace. ''https://pkg.example.com/'' @ rootSpace),
      TrimURLScheme = (\<lambda>u. drop 8 u),
      GetHost = (\<lambda>h. takeWhile (\<lambda>c. c \<noteq> CHR ''/'') h)\<rparr>"

section \<open>Properties of the route parser\<close>

lemma last_dropWhile_ne: "dropWhile P xs \<noteq> [] \<Longrightarrow> last (dropWhile P xs) = last xs"
  by (induction xs) (auto split: if_splits)

lemma dropWhile_self: "xs = [] \<or> \<not> P (hd xs) \<Longrightarrow> dropWhile P xs = xs"
  by (cases xs) auto

lemma hd_rev_dropWhile_rev:
  assumes "dropWhile P (rev u) \<noteq> []"
  shows "hd (rev (dropWhile P (rev u))) = hd u"
proof -
  from assms have u: "u \<noteq> []" by auto
  have "hd (rev (dropWhile P (rev u))) = last (dropWhile P (rev u))"
    using assms by (simp add: hd_rev)
  also have "\<dots> = last (rev u)" using assms by (rule last_dropWhile_ne)
  also have "\<dots> = hd u" using u by (simp add: last_rev)
  finally show ?thesis .
qed

lemma Trim_no_lead: "dropWhile (\<lambda>c. c \<in> set cs) (Trim s cs) = Trim s cs"
proof -
  define P where "P = (\<lambda>c. c \<in> set cs)"
  define u where "u = dropWhile P s"
  define t where "t = rev (dropWhile P (rev u))"
  have T: "Trim s cs = t" by (simp add: Trim_def t_def u_def P_def)
  have "t = [] \<or> \<not> P (hd t)"
  proof (cases "dropWhile P (rev u) = []")
    case True
    then show ?thesis by (simp add: t_def)
  next
    case False
    then have "hd t = hd u" unfolding t_def by (rule hd_rev_dropWhile_rev)
    moreover from False have "u \<noteq> []" by auto
    then have "\<not> P (hd u)" unfolding u_def by (rule hd_dropWhile)
    ultimately show ?thesis by simp
  qed
  then have "dropWhile P t = t" by (rule dropWhile_self)
  then show ?thesis unfolding T P_def .
qed

lemma Trim_no_trail: "dropWhile (\<lambda>c. c \<in> set cs) (rev (Trim s cs)) = rev (Trim s cs)"
  unfolding Trim_def by simp

lemma Trim_idem: "Trim (Trim s cs) cs = Trim s cs"
proof -
  have "Trim (Trim s cs) cs =
        rev (dropWhile (\<lambda>c. c \<in> set cs) (rev (dropWhile (\<lambda>c. c \<in> set cs) (Trim s cs))))"
    by (simp only: Trim_def)
  also have "\<dots> = rev (dropWhile (\<lambda>c. c \<in> set cs) (rev (Trim s cs)))"
    by (simp only: Trim_no_lead)
  also have "\<dots> = rev (rev (Trim s cs))"
    by (simp only: Trim_no_trail)
  finally show ?thesis by simp
qed

lemma Split_not_Nil: "Split s sep \<noteq> []"
  by (induction s) (auto split: list.splits)

lemma getRouteType_Trim: "getRouteType (Trim p ''/'') = getRouteType p"
  by (simp add: getRouteType_def Trim_idem)

lemma routeTypes_distinct:
  "distinct [Manifests, Blobs, BlobsUploadsSession, Tags, Referrers, Invalid]"
  by (simp add: Manifests_def Blobs_def BlobsUploadsSession_def Tags_def Referrers_def Invalid_def)

lemma getRouteType_range:
  "getRouteType url \<in> {Manifests, Blobs, BlobsUploadsSession, Tags, Referrers, Invalid}"
  by (simp add: getRouteType_def Let_def)

lemma getRouteType_short:
  "int (length (Split (Trim url ''/'') CHR ''/'')) < 5 \<Longrightarrow> getRouteType url = Invalid"
  by (simp add: getRouteType_def Let_def MinSizeOfURLSegments_def)


lemma bindE_simps [simp]: "bindE (Inr x) f = f x" "bindE (Inl e) f = Inl e"
  by (simp_all add: bindE_def)

lemma index_in_range: "0 \<le> i \<Longrightarrow> i < int (length xs) \<Longrightarrow> index xs i = Inr (xs ! nat i)"
  by (simp add: index_def)

lemma slice_in_range:
  "0 \<le> lo \<Longrightarrow> lo \<le> hi \<Longrightarrow> hi \<le> int (length xs) \<Longrightarrow>
   slice xs lo hi = Inr (take (nat (hi - lo)) (drop (nat lo) xs))"
  by (simp add: slice_def)

lemma getRouteType_Manifests_len:
  "getRouteType url = Manifests \<Longrightarrow> 5 \<le> int (length (Split (Trim url ''/'') CHR ''/''))"
  using getRouteType_short[of url] routeTypes_distinct by (cases "int (length (Split (Trim url ''/'') CHR ''/'')) < 5") auto

text \<open>
  C3. For every path that \<open>getRouteType\<close> classifies as a Manifests route,
  \<open>ExtractPathVars\<close> returns normally and inspects the final segment: the reference is
  the final segment; if \<open>digest.Parse\<close> accepts it, the digest is the final segment and
  the tag is empty; otherwise the tag is the final segment and the digest is empty.
\<close>

theorem ExtractPathVars_Manifests:
  assumes "getRouteType path = Manifests"
  shows "\<exists>v. ExtractPathVars dp path pm = Inr v \<and>
             ref v = last (Split (Trim path ''/'') CHR ''/'') \<and>
             (if dp (last (Split (Trim path ''/'') CHR ''/''))
              then dgst v = last (Split (Trim path ''/'') CHR ''/'') \<and> tag v = []
              else tag v = last (Split (Trim path ''/'') CHR ''/'') \<and> dgst v = [])"
proof -
  define segs where "segs = Split (Trim path ''/'') CHR ''/''"
  have len: "5 \<le> int (length segs)"
    unfolding segs_def using assms by (rule getRouteType_Manifests_len)
  have i1: "index segs 1 = Inr (segs ! 1)" using len by (simp add: index_def)
  have i2: "index segs 2 = Inr (segs ! 2)" using len by (simp add: index_def)
  have sl: "slice segs 3 (int (length segs) - 2) =
              Inr (take (nat (int (length segs) - 2 - 3)) (drop 3 segs))"
    using len by (simp add: slice_def)
  have ne: "segs \<noteq> []" using len by auto
  then have "segs ! (length segs - 1) = last segs" by (simp add: last_conv_nth)
  moreover have "nat (int (length segs) - 1) = length segs - 1" by simp
  ultimately have il: "index segs (int (length segs) - 1) = Inr (last segs)"
    using len ne by (simp add: index_def)
  have rt: "getRouteType (Trim path ''/'') = Manifests"
    using assms by (simp only: getRouteType_Trim)
  show ?thesis
    unfolding ExtractPathVars_def Let_def segs_def[symmetric]
    by (simp add: i1 i2 sl il rt)
qed

theorem ExtractPathVars_Manifests_witness:
  "getRouteType (URL_Path exLatestReq) = Manifests \<and>
   (\<exists>v. ExtractPathVars exDigestParse (URL_Path exLatestReq) (GetQueryParamMap exNoQuery) = Inr v \<and>
        ref v = ''latest'' \<and> tag v = ''latest'' \<and> dgst v = []) \<and>
   getRouteType (URL_Path exDigestReq) = Manifests \<and>
   (\<exists>v. ExtractPathVars exDigestParse (URL_Path exDigestReq) (GetQueryParamMap exNoQuery) = Inr v \<and>
        ref v = exDigest CHR ''a'' \<and> dgst v = exDigest CHR ''a'' \<and> tag v = [])"
proof -
  have h1: "getRouteType (URL_Path exLatestReq) = Manifests" by code_simp
  have l1: "last (Split (Trim (URL_Path exLatestReq) ''/'') CHR ''/'') = ''latest''" by code_simp
  have d1: "\<not> exDigestParse ''latest''" by code_simp
  have h2: "getRouteType (URL_Path exDigestReq) = Manifests" by code_simp
  have l2: "last (Split (Trim (URL_Path exDigestReq) ''/'') CHR ''/'') = exDigest CHR ''a''"
    by code_simp
  have d2: "exDigestParse (exDigest CHR ''a'')" by code_simp
  from ExtractPathVars_Manifests[OF h1, of exDigestParse "GetQueryParamMap exNoQuery"]
       ExtractPathVars_Manifests[OF h2, of exDigestParse "GetQueryParamMap exNoQuery"]
  show ?thesis unfolding l1 l2 using d1 d2 h1 h2 by simp
qed

subsection \<open>Panics of the path-variable extractor\<close>

lemma routeType_neq [simp]:
  "Manifests \<noteq> Blobs" "Manifests \<noteq> BlobsUploadsSession" "Manifests \<noteq> Tags"
  "Manifests \<noteq> Referrers" "Manifests \<noteq> Invalid"
  "Blobs \<noteq> Manifests" "Blobs \<noteq> BlobsUploadsSession" "Blobs \<noteq> Tags"
  "Blobs \<noteq> Referrers" "Blobs \<noteq> Invalid"
  "BlobsUploadsSession \<noteq> Manifests" "BlobsUploadsSession \<noteq> Blobs"
  "BlobsUploadsSession \<noteq> Tags" "BlobsUploadsSession \<noteq> Referrers"
  "BlobsUploadsSession \<noteq> Invalid"
  "Tags \<noteq> Manifests" "Tags \<noteq> Blobs" "Tags \<noteq> BlobsUploadsSession"
  "Tags \<noteq> Referrers" "Tags \<noteq> Invalid"
  "Referrers \<noteq> Manifests" "Referrers \<noteq> Blobs" "Referrers \<noteq> BlobsUploadsSession"
  "Referrers \<noteq> Tags" "Referrers \<noteq> Invalid"
  "Invalid \<noteq> Manifests" "Invalid \<noteq> Blobs" "Invalid \<noteq> BlobsUploadsSession"
  "Invalid \<noteq> Tags" "Invalid \<noteq> Referrers"
  by (simp_all add: Manifests_def Blobs_def BlobsUploadsSession_def Tags_def Referrers_def
        Invalid_def)

text \<open>Every path with fewer than five segments makes \<open>ExtractPathVars\<close> panic.\<close>

lemma ExtractPathVars_short_panics:
  assumes "length (Split (Trim path ''/'') CHR ''/'') < 5"
  shows "\<exists>p. ExtractPathVars dp path pm = Inl (Panic p)"
proof -
  define segs where "segs = Split (Trim path ''/'') CHR ''/''"
  have len: "length segs < 5" using assms by (simp add: segs_def)
  consider "length segs \<le> 1" | "length segs = 2" | "length segs = 3 \<or> length segs = 4"
    using len by linarith
  then show ?thesis
  proof cases
    case 1
    then have "index segs 1 = Inl (Panic IndexOutOfRange)" by (simp add: index_def)
    then show ?thesis unfolding ExtractPathVars_def Let_def segs_def[symmetric] by simp
  next
    case 2
    then have "index segs 1 = Inr (segs ! 1)" "index segs 2 = Inl (Panic IndexOutOfRange)"
      by (simp_all add: index_def)
    then show ?thesis unfolding ExtractPathVars_def Let_def segs_def[symmetric] by simp
  next
    case 3
    then have "index segs 1 = Inr (segs ! 1)" "index segs 2 = Inr (segs ! 2)"
      "slice segs 3 (int (length segs) - 2) = Inl (Panic SliceBoundsOutOfRange)"
      by (auto simp: index_def slice_def)
    then show ?thesis unfolding ExtractPathVars_def Let_def segs_def[symmetric] by simp
  qed
qed

text \<open>
  With at least five segments the three unconditional accesses are in range, and the only
  access that can still fail is the second image slice \<open>segments[3:len-3]\<close> of the
  upload-session branch, which needs six segments.
\<close>

lemma ExtractPathVars_unfold:
  assumes "5 \<le> length (Split (Trim path ''/'') CHR ''/'')"
  shows "ExtractPathVars dp path pm =
     (let segments = Split (Trim path ''/'') CHR ''/'';
          n = length segments;
          v = \<lparr>rootIdentifier = segments ! 1, registry = segments ! 2,
               image = Join (take (n - 5) (drop 3 segments)) ''/'', ref = [], dgst = [], tag = []\<rparr>;
          typ = getRouteType path
      in if typ = Manifests then
           (if \<not> dp (last segments) then Inr (v\<lparr>ref := last segments, tag := last segments\<rparr>)
            else Inr (v\<lparr>ref := last segments, dgst := last segments\<rparr>))
         else if typ = Blobs then Inr (v\<lparr>dgst := last segments\<rparr>)
         else if typ = BlobsUploadsSession then
           (if last segments \<noteq> APIPartUpload \<and> segments ! (n - 2) = APIPartUpload
            then (if n = 5 then Inl (Panic SliceBoundsOutOfRange)
                  else (case pm ''digest'' of
                          Some d \<Rightarrow> Inr (v\<lparr>image := Join (take (n - 6) (drop 3 segments)) ''/'',
                                           ref := last segments, dgst := d\<rparr>)
                        | None \<Rightarrow> Inr (v\<lparr>image := Join (take (n - 6) (drop 3 segments)) ''/'',
                                         ref := last segments\<rparr>)))
            else (case pm ''digest'' of Some d \<Rightarrow> Inr (v\<lparr>dgst := d\<rparr>) | None \<Rightarrow> Inr v))
         else if typ = Tags then Inr v
         else if typ = Referrers then Inr (v\<lparr>dgst := last segments\<rparr>)
         else Inr v)"
proof -
  define segs where "segs = Split (Trim path ''/'') CHR ''/''"
  have len: "5 \<le> length segs" using assms by (simp add: segs_def)
  have i1: "index segs 1 = Inr (segs ! 1)" using len by (simp add: index_def)
  have i2: "index segs 2 = Inr (segs ! 2)" using len by (simp add: index_def)
  have n5: "nat (int (length segs) - 2 - 3) = length segs - 5" by simp
  have sl: "slice segs 3 (int (length segs) - 2) = Inr (take (length segs - 5) (drop 3 segs))"
    using len unfolding slice_def n5 by simp
  have ne: "segs \<noteq> []" using len by auto
  have n1: "nat (int (length segs) - 1) = length segs - 1" by simp
  have n2: "nat (int (length segs) - 2) = length segs - 2" by simp
  have il: "index segs (int (length segs) - 1) = Inr (last segs)"
    using len ne unfolding index_def n1 by (simp add: last_conv_nth)
  have ip: "index segs (int (length segs) - 2) = Inr (segs ! (length segs - 2))"
    using len unfolding index_def n2 by simp
  have n6: "nat (int (length segs) - 3 - 3) = length segs - 6" by simp
  have s3: "slice segs 3 (int (length segs) - 3) =
              (if length segs = 5 then Inl (Panic SliceBoundsOutOfRange)
               else Inr (take (length segs - 6) (drop 3 segs)))"
    using len unfolding slice_def n6 by auto
  show ?thesis
    unfolding ExtractPathVars_def Let_def segs_def[symmetric] getRouteType_Trim
      i1 i2 sl il ip s3 bindE_simps
    by (simp split: option.splits)
qed


lemma ExtractPathVars_returns_iff:
  assumes "5 \<le> length (Split (Trim path ''/'') CHR ''/'')"
  shows "(\<exists>v. ExtractPathVars dp path pm = Inr v) \<longleftrightarrow>
         \<not> (length (Split (Trim path ''/'') CHR ''/'') = 5 \<and>
            getRouteType path = BlobsUploadsSession \<and>
            last (Split (Trim path ''/'') CHR ''/'') \<noteq> APIPartUpload \<and>
            Split (Trim path ''/'') CHR ''/'' ! 3 = APIPartUpload)"
  unfolding ExtractPathVars_unfold[OF assms] Let_def
  by (cases "getRouteType path = BlobsUploadsSession") (auto split: option.splits)

lemma ExtractPathVars_six_returns:
  assumes "6 \<le> length (Split (Trim path ''/'') CHR ''/'')"
  shows "\<exists>v. ExtractPathVars dp path pm = Inr v"
proof -
  from assms have "5 \<le> length (Split (Trim path ''/'') CHR ''/'')" by simp
  from ExtractPathVars_returns_iff[OF this] assms show ?thesis by simp
qed

lemma getRouteType_uploads:
  assumes "5 \<le> length (Split (Trim path ''/'') CHR ''/'')"
    and "Split (Trim path ''/'') CHR ''/'' ! (length (Split (Trim path ''/'') CHR ''/'') - 2)
           = APIPartUpload"
  shows "getRouteType path = BlobsUploadsSession"
  using assms
  by (simp add: getRouteType_def Let_def MinSizeOfURLSegments_def
        APIPartUpload_def APIPartManifest_def APIPartBlobs_def)

lemma ExtractPathVars_five_uploads_panics:
  assumes "length (Split (Trim path ''/'') CHR ''/'') = 5"
    and "Split (Trim path ''/'') CHR ''/'' ! 3 = APIPartUpload"
    and "last (Split (Trim path ''/'') CHR ''/'') \<noteq> APIPartUpload"
  shows "ExtractPathVars dp path pm = Inl (Panic SliceBoundsOutOfRange)"
proof -
  have len: "5 \<le> length (Split (Trim path ''/'') CHR ''/'')" using assms(1) by simp
  have "getRouteType path = BlobsUploadsSession"
    using getRouteType_uploads[OF len] assms(1,2) by simp
  then show ?thesis
    unfolding ExtractPathVars_unfold[OF len] Let_def
    using assms by simp
qed

lemma getRouteType_uploads_cases:
  assumes "getRouteType path = BlobsUploadsSession"
  shows "5 \<le> length (Split (Trim path ''/'') CHR ''/'') \<and>
         (Split (Trim path ''/'') CHR ''/'' ! (length (Split (Trim path ''/'') CHR ''/'') - 2)
            = APIPartUpload \<or>
          last (Split (Trim path ''/'') CHR ''/'') = APIPartUpload)"
proof -
  define segs where "segs = Split (Trim path ''/'') CHR ''/''"
  have len: "5 \<le> length segs"
    using assms getRouteType_short[of path] unfolding segs_def
    by (cases "int (length (Split (Trim path ''/'') CHR ''/'')) < 5") auto
  then have "segs \<noteq> []" by auto
  then have l: "segs ! (length segs - 1) = last segs" by (simp add: last_conv_nth)
  from assms len show ?thesis
    unfolding getRouteType_def Let_def segs_def[symmetric] l MinSizeOfURLSegments_def
    by (auto split: if_splits)
qed

text \<open>
  What \<open>ExtractPathVars\<close> does on a blob-upload route with at least six segments, or
  whose last segment is \<open>uploads\<close>: no reference for a last segment \<open>uploads\<close>,
  otherwise the last segment as reference and an image name without the last three
  segments; the digest is the \<open>digest\<close> query parameter when there is one.
\<close>

lemma ExtractPathVars_uploads:
  assumes "getRouteType path = BlobsUploadsSession"
    and "6 \<le> length (Split (Trim path ''/'') CHR ''/'') \<or>
         last (Split (Trim path ''/'') CHR ''/'') = APIPartUpload"
  shows "\<exists>v. ExtractPathVars dp path pm = Inr v \<and>
           (last (Split (Trim path ''/'') CHR ''/'') = APIPartUpload \<longrightarrow>
              ref v = [] \<and>
              image v = Join (take (length (Split (Trim path ''/'') CHR ''/'') - 5)
                               (drop 3 (Split (Trim path ''/'') CHR ''/''))) ''/'') \<and>
           (last (Split (Trim path ''/'') CHR ''/'') \<noteq> APIPartUpload \<longrightarrow>
              ref v = last (Split (Trim path ''/'') CHR ''/'') \<and>
              image v = Join (take (length (Split (Trim path ''/'') CHR ''/'') - 6)
                               (drop 3 (Split (Trim path ''/'') CHR ''/''))) ''/'') \<and>
           dgst v = (case pm ''digest'' of Some d \<Rightarrow> d | None \<Rightarrow> [])"
proof -
  from getRouteType_uploads_cases[OF assms(1)]
  have len: "5 \<le> length (Split (Trim path ''/'') CHR ''/'')"
    and c: "Split (Trim path ''/'') CHR ''/'' ! (length (Split (Trim path ''/'') CHR ''/'') - 2)
            = APIPartUpload \<or> last (Split (Trim path ''/'') CHR ''/'') = APIPartUpload"
    by simp_all
  show ?thesis
    unfolding ExtractPathVars_unfold[OF len] Let_def
    using assms c by (auto split: option.splits)
qed

text \<open>
  C4 (for every path classified as a blob-upload route, a last segment \<open>uploads\<close>
  denotes a new upload without session reference, any other last segment is captured as
  the session reference and left out of the image name, and a \<open>digest\<close> query
  parameter becomes the digest) does not hold of the code for every such path: the
  five-segment path \<open>/v2/root/reg/uploads/sess\<close> is classified as a blob-upload route,
  its last segment is not \<open>uploads\<close>, and \<open>ExtractPathVars\<close> panics on the slice
  \<open>segments[3:2]\<close> instead of capturing \<open>sess\<close>.
\<close>

theorem ExtractPathVars_uploads_session_panics:
  "getRouteType ''/v2/root/reg/uploads/sess'' = BlobsUploadsSession \<and>
   last (Split (Trim ''/v2/root/reg/uploads/sess'' ''/'') CHR ''/'') = ''sess'' \<and>
   ExtractPathVars exDigestParse ''/v2/root/reg/uploads/sess'' (GetQueryParamMap exNoQuery)
     = Inl (Panic SliceBoundsOutOfRange)"
  by code_simp

text \<open>
  C9 (no out-of-bounds indexing or slicing for every path of at least five segments; out
  of bounds for shorter paths) does not hold of the code at five segments: the path
  \<open>/v2/space/registry/uploads/7f3a\<close> splits into exactly five segments and
  \<open>ExtractPathVars\<close> panics with a slice out of bounds. (The lemmas above show that
  this is the only failing shape with five or more segments and that every shorter path
  panics.)
\<close>

theorem ExtractPathVars_five_segments_out_of_bounds:
  "int (length (Split (Trim ''/v2/space/registry/uploads/7f3a'' ''/'') CHR ''/'')) = 5 \<and>
   ExtractPathVars exDigestParse ''/v2/space/registry/uploads/7f3a'' (GetQueryParamMap exNoQuery)
     = Inl (Panic SliceBoundsOutOfRange)"
  by code_simp

section \<open>Properties of the access resolver\<close>

lemma GetRegistryInfo_resolved:
  assumes "ExtractPathVars (digestParse h) (URL_Path r) (GetQueryParamMap (URL_Query r)) = Inr pv"
    and "ValidateIdentifier h (rootIdentifier pv) = None"
    and "FindByRefCaseInsensitive h (rootIdentifier pv) = Some rootSpace"
    and "GetByRootParentIDAndName h (space_ID rootSpace) (registry pv) = Some reg"
    and "SpaceStore_Find h (reg_ParentID reg) = Some parent"
    and "space_Identifier rootSpace \<noteq> []"
    and "registry pv \<noteq> []"
  shows "GetRegistryInfo h r remoteSupport =
           (if image pv \<noteq> [] \<and> tag pv \<noteq> [] \<and>
               (\<not> fst (MatchArtifactFilter h (AllowedPattern reg) (BlockedPattern reg)
                         (image pv @ '':'' @ tag pv)) \<or>
                snd (MatchArtifactFilter h (AllowedPattern reg) (BlockedPattern reg)
                         (image pv @ '':'' @ tag pv)) \<noteq> None)
            then Inl ErrCodeDenied
            else if reg_Type reg = RegistryTypeUPSTREAM \<and> \<not> remoteSupport then Inl ErrCodeDenied
            else Inr \<lparr>RootIdentifier = rootIdentifier pv,
                      RootParentID = space_ID rootSpace,
                      ParentID = reg_ParentID reg,
                      RegIdentifier = registry pv,
                      Image = image pv,
                      Reference = ref pv,
                      Digest = dgst pv,
                      Tag = tag pv,
                      Path = URL_Path r\<rparr>)"
  using assms
  by (simp add: GetRegistryInfo_def Let_def orErr_def failWith_def IsEmpty_def split_beta)

text \<open>The example requests, parsed.\<close>

lemma exLatestReq_vars:
  "ExtractPathVars (digestParse exHandler) (URL_Path exLatestReq)
     (GetQueryParamMap (URL_Query exLatestReq)) = Inr exLatestVars"
  by code_simp

lemma exBlobReq_vars:
  "ExtractPathVars (digestParse exHandler) (URL_Path exBlobReq)
     (GetQueryParamMap (URL_Query exBlobReq)) = Inr exBlobVars"
  by code_simp

lemma exDigestReq_vars:
  "ExtractPathVars (digestParse exHandler) (URL_Path exDigestReq)
     (GetQueryParamMap (URL_Query exDigestReq)) = Inr exDigestVars"
  by code_simp

lemma exInvalidReq_vars:
  "ExtractPathVars (digestParse exHandler) (URL_Path exInvalidReq)
     (GetQueryParamMap (URL_Query exInvalidReq)) = Inr exInvalidVars"
  by code_simp

text \<open>
  C10. When path parsing, identifier validation and the root, registry and parent lookups
  succeed and the registry found is of type UPSTREAM, \<open>GetRegistryInfo\<close> called with
  the remote-support flag false returns \<open>ErrCodeDenied\<close> (whatever the allow/block
  filter answers).
\<close>

theorem GetRegistryInfo_upstream_denied:
  assumes "ExtractPathVars (digestParse h) (URL_Path r) (GetQueryParamMap (URL_Query r)) = Inr pv"
    and "ValidateIdentifier h (rootIdentifier pv) = None"
    and "FindByRefCaseInsensitive h (rootIdentifier pv) = Some rootSpace"
    and "GetByRootParentIDAndName h (space_ID rootSpace) (registry pv) = Some reg"
    and "SpaceStore_Find h (reg_ParentID reg) = Some parent"
    and "space_Identifier rootSpace \<noteq> []"
    and "registry pv \<noteq> []"
    and "reg_Type reg = RegistryTypeUPSTREAM"
  shows "GetRegistryInfo h r False = Inl ErrCodeDenied"
  using assms(8) by (simp add: GetRegistryInfo_resolved[OF assms(1-7)])

theorem GetRegistryInfo_upstream_denied_witness:
  "reg_Type exUpstreamReg = RegistryTypeUPSTREAM \<and>
   GetRegistryInfo exHandler exBlobReq False = Inl ErrCodeDenied \<and>
   GetRegistryInfo exHandler exBlobReq True = Inr exBlobInfo"
proof -
  have h2: "ValidateIdentifier exHandler (rootIdentifier exBlobVars) = None" by code_simp
  have h3: "FindByRefCaseInsensitive exHandler (rootIdentifier exBlobVars) = Some exRootSpace"
    by code_simp
  have h4: "GetByRootParentIDAndName exHandler (space_ID exRootSpace) (registry exBlobVars)
              = Some exUpstreamReg" by code_simp
  have h5: "SpaceStore_Find exHandler (reg_ParentID exUpstreamReg) = Some exRootSpace"
    by code_simp
  have h6: "space_Identifier exRootSpace \<noteq> []" by code_simp
  have h7: "registry exBlobVars \<noteq> []" by code_simp
  have h8: "reg_Type exUpstreamReg = RegistryTypeUPSTREAM" by code_simp
  have ok: "GetRegistryInfo exHandler exBlobReq True = Inr exBlobInfo" by code_simp
  from GetRegistryInfo_upstream_denied[OF exBlobReq_vars h2 h3 h4 h5 h6 h7 h8] h8 ok
  show ?thesis by simp
qed

text \<open>
  C1. For a request that carries both an image and a tag and whose root, registry and
  parent resolve, with the filter as the spec describes it: if \<open>image:tag\<close> does not
  match the allow globs (an empty allow list matches everything) or matches a block glob,
  \<open>GetRegistryInfo\<close> returns \<open>ErrCodeDenied\<close>; in particular a blocked
  \<open>image:tag\<close> is denied (the resolver takes no authentication input). Conversely a
  request that passes the filter is answered with the registry info unless the registry is
  an UPSTREAM one asked without remote support.
\<close>

theorem GetRegistryInfo_policy:
  assumes "ExtractPathVars (digestParse h) (URL_Path r) (GetQueryParamMap (URL_Query r)) = Inr pv"
    and "ValidateIdentifier h (rootIdentifier pv) = None"
    and "FindByRefCaseInsensitive h (rootIdentifier pv) = Some rootSpace"
    and "GetByRootParentIDAndName h (space_ID rootSpace) (registry pv) = Some reg"
    and "SpaceStore_Find h (reg_ParentID reg) = Some parent"
    and "space_Identifier rootSpace \<noteq> []"
    and "registry pv \<noteq> []"
    and "image pv \<noteq> []" and "tag pv \<noteq> []"
    and "MatchArtifactFilter h = MatchArtifactFilter_modelled glob"
  shows "(\<not> ((AllowedPattern reg = [] \<or>
               (\<exists>p \<in> set (AllowedPattern reg). glob p (image pv @ '':'' @ tag pv))) \<and>
              \<not> (\<exists>p \<in> set (BlockedPattern reg). glob p (image pv @ '':'' @ tag pv)))
           \<longrightarrow> GetRegistryInfo h r remoteSupport = Inl ErrCodeDenied) \<and>
         ((\<exists>p \<in> set (BlockedPattern reg). glob p (image pv @ '':'' @ tag pv))
           \<longrightarrow> GetRegistryInfo h r remoteSupport = Inl ErrCodeDenied) \<and>
         ((AllowedPattern reg = [] \<or>
               (\<exists>p \<in> set (AllowedPattern reg). glob p (image pv @ '':'' @ tag pv))) \<and>
          \<not> (\<exists>p \<in> set (BlockedPattern reg). glob p (image pv @ '':'' @ tag pv)) \<and>
          (reg_Type reg \<noteq> RegistryTypeUPSTREAM \<or> remoteSupport)
           \<longrightarrow> (\<exists>info. GetRegistryInfo h r remoteSupport = Inr info))"
  using assms(8-10)
  by (simp add: GetRegistryInfo_resolved[OF assms(1-7)] MatchArtifactFilter_modelled_def
        matchPatterns_def list_ex_iff)

theorem GetRegistryInfo_policy_witness:
  "image exLatestVars \<noteq> [] \<and> tag exLatestVars \<noteq> [] \<and>
   globMatch ''*:latest'' (image exLatestVars @ '':'' @ tag exLatestVars) \<and>
   ''*:latest'' \<in> set (BlockedPattern exVirtualReg) \<and>
   GetRegistryInfo exHandler exLatestReq True = Inl ErrCodeDenied"
proof -
  have h2: "ValidateIdentifier exHandler (rootIdentifier exLatestVars) = None" by code_simp
  have h3: "FindByRefCaseInsensitive exHandler (rootIdentifier exLatestVars) = Some exRootSpace"
    by code_simp
  have h4: "GetByRootParentIDAndName exHandler (space_ID exRootSpace) (registry exLatestVars)
              = Some exVirtualReg" by code_simp
  have h5: "SpaceStore_Find exHandler (reg_ParentID exVirtualReg) = Some exRootSpace"
    by code_simp
  have h6: "space_Identifier exRootSpace \<noteq> []" by code_simp
  have h7: "registry exLatestVars \<noteq> []" by code_simp
  have h8: "image exLatestVars \<noteq> []" by code_simp
  have h9: "tag exLatestVars \<noteq> []" by code_simp
  have h10: "MatchArtifactFilter exHandler = MatchArtifactFilter_modelled globMatch"
    by (simp add: exHandler_def)
  have g: "globMatch ''*:latest'' (image exLatestVars @ '':'' @ tag exLatestVars)"
    by code_simp
  have b: "''*:latest'' \<in> set (BlockedPattern exVirtualReg)" by (simp add: exVirtualReg_def)
  from g b have "\<exists>p \<in> set (BlockedPattern exVirtualReg).
                    globMatch p (image exLatestVars @ '':'' @ tag exLatestVars)" by blast
  with GetRegistryInfo_policy[OF exLatestReq_vars h2 h3 h4 h5 h6 h7 h8 h9 h10, of True]
  have "GetRegistryInfo exHandler exLatestReq True = Inl ErrCodeDenied" by blast
  with h8 h9 g b show ?thesis by simp
qed

lemma index_last: "index xs (int (length xs) - 1) = Inr r \<Longrightarrow> r = last xs"
proof -
  assume a: "index xs (int (length xs) - 1) = Inr r"
  have n: "nat (int (length xs) - 1) = length xs - 1" by simp
  from a have "xs \<noteq> []" by (auto simp: index_def split: if_splits)
  moreover from a have "r = xs ! (length xs - 1)"
    unfolding index_def n by (simp split: if_splits)
  ultimately show ?thesis by (simp add: last_conv_nth)
qed

lemma ExtractPathVars_tag_nonempty:
  assumes "ExtractPathVars dp path pm = Inr pv" and "tag pv \<noteq> []"
  shows "getRouteType path = Manifests \<and> \<not> dp (last (Split (Trim path ''/'') CHR ''/''))"
  using assms
  unfolding ExtractPathVars_def Let_def getRouteType_Trim
  by (auto simp: bindE_def split: sum.splits if_splits option.splits dest: index_last)

lemma ExtractPathVars_Invalid:
  assumes "ExtractPathVars dp path pm = Inr pv" and "getRouteType path = Invalid"
  shows "ref pv = [] \<and> dgst pv = [] \<and> tag pv = []"
  using assms routeTypes_distinct
  unfolding ExtractPathVars_def Let_def getRouteType_Trim
  by (auto simp: bindE_def split: sum.splits)

text \<open>
  C8. For a request whose parsed image or parsed tag is empty, \<open>GetRegistryInfo\<close> does
  not consult the allow/block filter: its result is the same whatever the filter function
  is and whatever allowed and blocked patterns the registry row carries, and if it is
  \<open>ErrCodeDenied\<close> then the registry is an UPSTREAM one asked without remote support.
  In particular the parsed tag is empty for every Blobs route and for every Manifests route
  whose final segment parses as a digest.
\<close>

theorem GetRegistryInfo_filter_skipped:
  assumes "ExtractPathVars (digestParse h) (URL_Path r) (GetQueryParamMap (URL_Query r)) = Inr pv"
  shows "(image pv = [] \<or> tag pv = [] \<longrightarrow>
            GetRegistryInfo
              (h\<lparr>MatchArtifactFilter := f,
                 GetByRootParentIDAndName := \<lambda>i n.
                   map_option (\<lambda>reg. reg\<lparr>AllowedPattern := a, BlockedPattern := b\<rparr>)
                     (GetByRootParentIDAndName h i n)\<rparr>) r remoteSupport
              = GetRegistryInfo h r remoteSupport \<and>
            (GetRegistryInfo h r remoteSupport = Inl ErrCodeDenied \<longrightarrow>
               \<not> remoteSupport \<and>
               (\<exists>rootSpace reg. FindByRefCaseInsensitive h (rootIdentifier pv) = Some rootSpace \<and>
                   GetByRootParentIDAndName h (space_ID rootSpace) (registry pv) = Some reg \<and>
                   reg_Type reg = RegistryTypeUPSTREAM))) \<and>
         (getRouteType (URL_Path r) = Blobs \<longrightarrow> tag pv = []) \<and>
         (getRouteType (URL_Path r) = Manifests \<and>
            digestParse h (last (Split (Trim (URL_Path r) ''/'') CHR ''/'')) \<longrightarrow> tag pv = [])"
proof (intro conjI impI)
  assume e: "image pv = [] \<or> tag pv = []"
  show "GetRegistryInfo
              (h\<lparr>MatchArtifactFilter := f,
                 GetByRootParentIDAndName := \<lambda>i n.
                   map_option (\<lambda>reg. reg\<lparr>AllowedPattern := a, BlockedPattern := b\<rparr>)
                     (GetByRootParentIDAndName h i n)\<rparr>) r remoteSupport
              = GetRegistryInfo h r remoteSupport"
    using assms e
    by (auto simp: GetRegistryInfo_def Let_def orErr_def failWith_def IsEmpty_def
             split: option.splits)
next
  assume e: "image pv = [] \<or> tag pv = []" and d: "GetRegistryInfo h r remoteSupport = Inl ErrCodeDenied"
  show "\<not> remoteSupport" using assms e d
    by (auto simp: GetRegistryInfo_def Let_def orErr_def failWith_def IsEmpty_def
             split: option.splits if_splits)
  show "\<exists>rootSpace reg. FindByRefCaseInsensitive h (rootIdentifier pv) = Some rootSpace \<and>
                   GetByRootParentIDAndName h (space_ID rootSpace) (registry pv) = Some reg \<and>
                   reg_Type reg = RegistryTypeUPSTREAM"
    using assms e d
    by (auto simp: GetRegistryInfo_def Let_def orErr_def failWith_def IsEmpty_def
             split: option.splits if_splits)
next
  assume b: "getRouteType (URL_Path r) = Blobs"
  show "tag pv = []"
  proof (rule ccontr)
    assume "tag pv \<noteq> []"
    from ExtractPathVars_tag_nonempty[OF assms this] b routeTypes_distinct
    show False by simp
  qed
next
  assume m: "getRouteType (URL_Path r) = Manifests \<and>
            digestParse h (last (Split (Trim (URL_Path r) ''/'') CHR ''/''))"
  show "tag pv = []"
  proof (rule ccontr)
    assume "tag pv \<noteq> []"
    from ExtractPathVars_tag_nonempty[OF assms this] m
    show False by simp
  qed
qed

theorem GetRegistryInfo_filter_skipped_witness:
  "tag exBlobVars = [] \<and> getRouteType (URL_Path exBlobReq) = Blobs \<and>
   GetRegistryInfo
     (exHandler\<lparr>MatchArtifactFilter := exRejectAll,
        GetByRootParentIDAndName := \<lambda>i n.
          map_option (\<lambda>reg. reg\<lparr>AllowedPattern := [''none''], BlockedPattern := [''*'']\<rparr>)
            (GetByRootParentIDAndName exHandler i n)\<rparr>) exBlobReq False
     = GetRegistryInfo exHandler exBlobReq False \<and>
   GetRegistryInfo exHandler exBlobReq False = Inl ErrCodeDenied \<and>
   reg_Type exUpstreamReg = RegistryTypeUPSTREAM \<and>
   getRouteType (URL_Path exDigestReq) = Manifests \<and>
   digestParse exHandler (last (Split (Trim (URL_Path exDigestReq) ''/'') CHR ''/'')) \<and>
   tag exDigestVars = []"
proof -
  have e: "tag exBlobVars = []" by code_simp
  have b: "getRouteType (URL_Path exBlobReq) = Blobs" by code_simp
  have d: "GetRegistryInfo exHandler exBlobReq False = Inl ErrCodeDenied" by code_simp
  have u: "reg_Type exUpstreamReg = RegistryTypeUPSTREAM" by code_simp
  have m: "getRouteType (URL_Path exDigestReq) = Manifests" by code_simp
  have p: "digestParse exHandler (last (Split (Trim (URL_Path exDigestReq) ''/'') CHR ''/''))"
    by code_simp
  from GetRegistryInfo_filter_skipped[OF exBlobReq_vars,
         where f = exRejectAll and a = "[''none'']" and b = "[''*'']" and remoteSupport = False]
       GetRegistryInfo_filter_skipped[OF exDigestReq_vars,
         where f = exRejectAll and a = "[''none'']" and b = "[''*'']" and remoteSupport = False]
       e b d u m p
  show ?thesis by simp
qed

text \<open>
  C2 as stated fails in its last part. The path \<open>/v2/root/reg/img/foo/bar\<close> is
  classified Invalid, yet \<open>ExtractPathVars\<close> only logs a warning for it and
  \<open>GetRegistryInfo\<close> goes on to the store lookups: with the example tenant it returns
  the registry info, without the root space it returns \<open>ErrCodeRootNotFound\<close>. So the
  answer for an Invalid path is read from storage and is not a fixed error.
\<close>

theorem Invalid_route_resolved_example:
  "getRouteType (URL_Path exInvalidReq) = Invalid \<and>
   GetRegistryInfo exHandler exInvalidReq True = Inr exInvalidInfo \<and>
   GetRegistryInfo exEmptyHandler exInvalidReq True = Inl ErrCodeRootNotFound"
  by code_simp

text \<open>
  C2, amended. For every URL path \<open>getRouteType\<close> returns exactly one of the six route
  types (which are pairwise distinct), and a path with fewer than five segments after
  trimming is Invalid. For an Invalid path of at least five segments no fixed error is
  produced: \<open>ExtractPathVars\<close> returns its root, registry and image with empty
  reference, digest and tag, and \<open>GetRegistryInfo\<close> answers from the identifier
  validation, the root, registry and parent lookups and the UPSTREAM check alone,
  returning the registry info when all of them pass.
\<close>

theorem route_classification:
  "getRouteType (URL_Path r) \<in> {Manifests, Blobs, BlobsUploadsSession, Tags, Referrers, Invalid} \<and>
   distinct [Manifests, Blobs, BlobsUploadsSession, Tags, Referrers, Invalid] \<and>
   (int (length (Split (Trim (URL_Path r) ''/'') CHR ''/'')) < MinSizeOfURLSegments
      \<longrightarrow> getRouteType (URL_Path r) = Invalid) \<and>
   (getRouteType (URL_Path r) = Invalid \<and>
    MinSizeOfURLSegments \<le> int (length (Split (Trim (URL_Path r) ''/'') CHR ''/''))
      \<longrightarrow> (\<exists>pv.
            ExtractPathVars (digestParse h) (URL_Path r) (GetQueryParamMap (URL_Query r)) = Inr pv \<and>
            rootIdentifier pv = Split (Trim (URL_Path r) ''/'') CHR ''/'' ! 1 \<and>
            registry pv = Split (Trim (URL_Path r) ''/'') CHR ''/'' ! 2 \<and>
            image pv =
              Join (take (length (Split (Trim (URL_Path r) ''/'') CHR ''/'') - 5)
                      (drop 3 (Split (Trim (URL_Path r) ''/'') CHR ''/''))) ''/'' \<and>
            ref pv = [] \<and> dgst pv = [] \<and> tag pv = [] \<and>
            GetRegistryInfo h r remoteSupport =
              (case ValidateIdentifier h (rootIdentifier pv) of
                 Some msg \<Rightarrow> Inl (ErrValidateIdentifier msg)
               | None \<Rightarrow>
              (case FindByRefCaseInsensitive h (rootIdentifier pv) of
                 None \<Rightarrow> Inl ErrCodeRootNotFound
               | Some rootSpace \<Rightarrow>
              (case GetByRootParentIDAndName h (space_ID rootSpace) (registry pv) of
                 None \<Rightarrow> Inl ErrCodeRegNotFound
               | Some reg \<Rightarrow>
              (case SpaceStore_Find h (reg_ParentID reg) of
                 None \<Rightarrow> Inl ErrCodeParentNotFound
               | Some parent \<Rightarrow>
                   if space_Identifier rootSpace = [] then Inl ErrCodeParentNotFound
                   else if registry pv = [] then Inl ErrCodeRegNotFound
                   else if reg_Type reg = RegistryTypeUPSTREAM \<and> \<not> remoteSupport
                     then Inl ErrCodeDenied
                   else Inr \<lparr>RootIdentifier = rootIdentifier pv,
                             RootParentID = space_ID rootSpace,
                             ParentID = reg_ParentID reg,
                             RegIdentifier = registry pv,
                             Image = image pv,
                             Reference = [], Digest = [], Tag = [],
                             Path = URL_Path r\<rparr>))))))"
proof (intro conjI impI)
  show "getRouteType (URL_Path r) \<in> {Manifests, Blobs, BlobsUploadsSession, Tags, Referrers, Invalid}"
    by (rule getRouteType_range)
  show "distinct [Manifests, Blobs, BlobsUploadsSession, Tags, Referrers, Invalid]"
    by (rule routeTypes_distinct)
next
  assume "int (length (Split (Trim (URL_Path r) ''/'') CHR ''/'')) < MinSizeOfURLSegments"
  then show "getRouteType (URL_Path r) = Invalid"
    by (simp add: getRouteType_short MinSizeOfURLSegments_def)
next
  assume a: "getRouteType (URL_Path r) = Invalid \<and>
    MinSizeOfURLSegments \<le> int (length (Split (Trim (URL_Path r) ''/'') CHR ''/''))"
  define segs where "segs = Split (Trim (URL_Path r) ''/'') CHR ''/''"
  define pv where "pv = \<lparr>rootIdentifier = segs ! 1, registry = segs ! 2,
      image = Join (take (length segs - 5) (drop 3 segs)) ''/'', ref = [], dgst = [], tag = []\<rparr>"
  from a have inv: "getRouteType (URL_Path r) = Invalid"
    and len: "5 \<le> length (Split (Trim (URL_Path r) ''/'') CHR ''/'')"
    by (simp_all add: MinSizeOfURLSegments_def)
  have e: "ExtractPathVars (digestParse h) (URL_Path r) (GetQueryParamMap (URL_Query r)) = Inr pv"
    unfolding ExtractPathVars_unfold[OF len] Let_def pv_def segs_def using inv by simp
  have f: "rootIdentifier pv = segs ! 1" "registry pv = segs ! 2"
    "image pv = Join (take (length segs - 5) (drop 3 segs)) ''/''"
    "ref pv = []" "dgst pv = []" "tag pv = []"
    by (simp_all add: pv_def)
  have g: "GetRegistryInfo h r remoteSupport =
              (case ValidateIdentifier h (rootIdentifier pv) of
                 Some msg \<Rightarrow> Inl (ErrValidateIdentifier msg)
               | None \<Rightarrow>
              (case FindByRefCaseInsensitive h (rootIdentifier pv) of
                 None \<Rightarrow> Inl ErrCodeRootNotFound
               | Some rootSpace \<Rightarrow>
              (case GetByRootParentIDAndName h (space_ID rootSpace) (registry pv) of
                 None \<Rightarrow> Inl ErrCodeRegNotFound
               | Some reg \<Rightarrow>
              (case SpaceStore_Find h (reg_ParentID reg) of
                 None \<Rightarrow> Inl ErrCodeParentNotFound
               | Some parent \<Rightarrow>
                   if space_Identifier rootSpace = [] then Inl ErrCodeParentNotFound
                   else if registry pv = [] then Inl ErrCodeRegNotFound
                   else if reg_Type reg = RegistryTypeUPSTREAM \<and> \<not> remoteSupport
                     then Inl ErrCodeDenied
                   else Inr \<lparr>RootIdentifier = rootIdentifier pv,
                             RootParentID = space_ID rootSpace,
                             ParentID = reg_ParentID reg,
                             RegIdentifier = registry pv,
                             Image = image pv,
                             Reference = [], Digest = [], Tag = [],
                             Path = URL_Path r\<rparr>))))"
    unfolding GetRegistryInfo_def Let_def e
    by (simp add: f(4-6) orErr_def failWith_def IsEmpty_def split: option.splits)
  from e f g show "\<exists>pv.
            ExtractPathVars (digestParse h) (URL_Path r) (GetQueryParamMap (URL_Query r)) = Inr pv \<and>
            rootIdentifier pv = Split (Trim (URL_Path r) ''/'') CHR ''/'' ! 1 \<and>
            registry pv = Split (Trim (URL_Path r) ''/'') CHR ''/'' ! 2 \<and>
            image pv =
              Join (take (length (Split (Trim (URL_Path r) ''/'') CHR ''/'') - 5)
                      (drop 3 (Split (Trim (URL_Path r) ''/'') CHR ''/''))) ''/'' \<and>
            ref pv = [] \<and> dgst pv = [] \<and> tag pv = [] \<and>
            GetRegistryInfo h r remoteSupport =
              (case ValidateIdentifier h (rootIdentifier pv) of
                 Some msg \<Rightarrow> Inl (ErrValidateIdentifier msg)
               | None \<Rightarrow>
              (case FindByRefCaseInsensitive h (rootIdentifier pv) of
                 None \<Rightarrow> Inl ErrCodeRootNotFound
               | Some rootSpace \<Rightarrow>
              (case GetByRootParentIDAndName h (space_ID rootSpace) (registry pv) of
                 None \<Rightarrow> Inl ErrCodeRegNotFound
               | Some reg \<Rightarrow>
              (case SpaceStore_Find h (reg_ParentID reg) of
                 None \<Rightarrow> Inl ErrCodeParentNotFound
               | Some parent \<Rightarrow>
                   if space_Identifier rootSpace = [] then Inl ErrCodeParentNotFound
                   else if registry pv = [] then Inl ErrCodeRegNotFound
                   else if reg_Type reg = RegistryTypeUPSTREAM \<and> \<not> remoteSupport
                     then Inl ErrCodeDenied
                   else Inr \<lparr>RootIdentifier = rootIdentifier pv,
                             RootParentID = space_ID rootSpace,
                             ParentID = reg_ParentID reg,
                             RegIdentifier = registry pv,
                             Image = image pv,
                             Reference = [], Digest = [], Tag = [],
                             Path = URL_Path r\<rparr>))))"
    unfolding segs_def by blast
qed

theorem route_classification_witness:
  "int (length (Split (Trim (URL_Path exShortReq) ''/'') CHR ''/'')) < MinSizeOfURLSegments \<and>
   getRouteType (URL_Path exShortReq) = Invalid \<and>
   getRouteType (URL_Path exInvalidReq) = Invalid \<and>
   MinSizeOfURLSegments \<le> int (length (Split (Trim (URL_Path exInvalidReq) ''/'') CHR ''/'')) \<and>
   ExtractPathVars (digestParse exHandler) (URL_Path exInvalidReq)
     (GetQueryParamMap (URL_Query exInvalidReq)) = Inr exInvalidVars \<and>
   GetRegistryInfo exHandler exInvalidReq True = Inr exInvalidInfo \<and>
   GetRegistryInfo exEmptyHandler exInvalidReq True = Inl ErrCodeRootNotFound"
proof -
  have s: "int (length (Split (Trim (URL_Path exShortReq) ''/'') CHR ''/'')) < MinSizeOfURLSegments"
    by code_simp
  have i: "getRouteType (URL_Path exInvalidReq) = Invalid" by code_simp
  have n: "MinSizeOfURLSegments \<le> int (length (Split (Trim (URL_Path exInvalidReq) ''/'') CHR ''/''))"
    by code_simp
  have h2: "ValidateIdentifier exHandler (rootIdentifier exInvalidVars) = None" by code_simp
  have h3: "FindByRefCaseInsensitive exHandler (rootIdentifier exInvalidVars) = Some exRootSpace"
    by code_simp
  have h4: "GetByRootParentIDAndName exHandler (space_ID exRootSpace) (registry exInvalidVars)
              = Some exVirtualReg" by code_simp
  have h5: "SpaceStore_Find exHandler (reg_ParentID exVirtualReg) = Some exRootSpace"
    by code_simp
  have h6: "space_Identifier exRootSpace \<noteq> []" by code_simp
  have h7: "registry exInvalidVars \<noteq> []" by code_simp
  have h8: "reg_Type exVirtualReg \<noteq> RegistryTypeUPSTREAM" by code_simp
  have eq: "\<lparr>RootIdentifier = rootIdentifier exInvalidVars,
             RootParentID = space_ID exRootSpace,
             ParentID = reg_ParentID exVirtualReg,
             RegIdentifier = registry exInvalidVars,
             Image = image exInvalidVars,
             Reference = [], Digest = [], Tag = [],
             Path = URL_Path exInvalidReq\<rparr> = exInvalidInfo" by code_simp
  have k2: "ValidateIdentifier exEmptyHandler (rootIdentifier exInvalidVars) = None"
    by code_simp
  have k3: "FindByRefCaseInsensitive exEmptyHandler (rootIdentifier exInvalidVars) = None"
    by code_simp
  have kv: "ExtractPathVars (digestParse exEmptyHandler) (URL_Path exInvalidReq)
     (GetQueryParamMap (URL_Query exInvalidReq)) = Inr exInvalidVars" by code_simp
  from route_classification[where r = exShortReq] s
  have a: "getRouteType (URL_Path exShortReq) = Invalid" by blast
  from route_classification[where r = exInvalidReq and h = exHandler and remoteSupport = True]
       i n exInvalidReq_vars
  have c: "GetRegistryInfo exHandler exInvalidReq True =
              (case ValidateIdentifier exHandler (rootIdentifier exInvalidVars) of
                 Some msg \<Rightarrow> Inl (ErrValidateIdentifier msg)
               | None \<Rightarrow>
              (case FindByRefCaseInsensitive exHandler (rootIdentifier exInvalidVars) of
                 None \<Rightarrow> Inl ErrCodeRootNotFound
               | Some rootSpace \<Rightarrow>
              (case GetByRootParentIDAndName exHandler (space_ID rootSpace)
                      (registry exInvalidVars) of
                 None \<Rightarrow> Inl ErrCodeRegNotFound
               | Some reg \<Rightarrow>
              (case SpaceStore_Find exHandler (reg_ParentID reg) of
                 None \<Rightarrow> Inl ErrCodeParentNotFound
               | Some parent \<Rightarrow>
                   if space_Identifier rootSpace = [] then Inl ErrCodeParentNotFound
                   else if registry exInvalidVars = [] then Inl ErrCodeRegNotFound
                   else if reg_Type reg = RegistryTypeUPSTREAM \<and> \<not> True
                     then Inl ErrCodeDenied
                   else Inr \<lparr>RootIdentifier = rootIdentifier exInvalidVars,
                             RootParentID = space_ID rootSpace,
                             ParentID = reg_ParentID reg,
                             RegIdentifier = registry exInvalidVars,
                             Image = image exInvalidVars,
                             Reference = [], Digest = [], Tag = [],
                             Path = URL_Path exInvalidReq\<rparr>))))"
    by auto
  have c': "GetRegistryInfo exHandler exInvalidReq True = Inr exInvalidInfo"
    unfolding c h2 h3 using h4 h5 h6 h7 eq by simp
  from route_classification[where r = exInvalidReq and h = exEmptyHandler
         and remoteSupport = True] i n kv
  have d: "GetRegistryInfo exEmptyHandler exInvalidReq True =
              (case ValidateIdentifier exEmptyHandler (rootIdentifier exInvalidVars) of
                 Some msg \<Rightarrow> Inl (ErrValidateIdentifier msg)
               | None \<Rightarrow>
              (case FindByRefCaseInsensitive exEmptyHandler (rootIdentifier exInvalidVars) of
                 None \<Rightarrow> Inl ErrCodeRootNotFound
               | Some rootSpace \<Rightarrow>
              (case GetByRootParentIDAndName exEmptyHandler (space_ID rootSpace)
                      (registry exInvalidVars) of
                 None \<Rightarrow> Inl ErrCodeRegNotFound
               | Some reg \<Rightarrow>
              (case SpaceStore_Find exEmptyHandler (reg_ParentID reg) of
                 None \<Rightarrow> Inl ErrCodeParentNotFound
               | Some parent \<Rightarrow>
                   if space_Identifier rootSpace = [] then Inl ErrCodeParentNotFound
                   else if registry exInvalidVars = [] then Inl ErrCodeRegNotFound
                   else if reg_Type reg = RegistryTypeUPSTREAM \<and> \<not> True
                     then Inl ErrCodeDenied
                   else Inr \<lparr>RootIdentifier = rootIdentifier exInvalidVars,
                             RootParentID = space_ID rootSpace,
                             ParentID = reg_ParentID reg,
                             RegIdentifier = registry exInvalidVars,
                             Image = image exInvalidVars,
                             Reference = [], Digest = [], Tag = [],
                             Path = URL_Path exInvalidReq\<rparr>))))"
    by auto
  have d': "GetRegistryInfo exEmptyHandler exInvalidReq True = Inl ErrCodeRootNotFound"
    unfolding d k2 k3 by simp
  from s a i n exInvalidReq_vars c' d' show ?thesis by simp
qed

section \<open>Properties of the manifest-list walk\<close>

lemma getManifestList_loop_append:
  "getManifestList_loop env reg img root dc (xs @ ys) acc =
     bindE (getManifestList_loop env reg img root dc xs acc)
       (\<lambda>acc'. getManifestList_loop env reg img root dc ys acc')"
  by (induction xs arbitrary: acc) (auto split: sum.splits)

text \<open>
  C5. In the walk over a manifest list's child descriptors, a child whose referenced
  manifest the store does not find (an error that is \<open>ErrResourceNotFound\<close>) is
  skipped when the registry's type is UPSTREAM: the walk gives what it gives without that
  child. When the type is not UPSTREAM the whole walk fails, and it fails with the
  manifest-not-found error of that child whenever the children before it were walked
  without error.
\<close>

theorem getManifestList_missing_child:
  assumes "NewDigest env (desc_Digest child) = Inr d"
    and "FindManifestByDigest env (reg_ID reg) img d = Inl err"
    and "errorsIs err ErrResourceNotFound"
  shows "(reg_Type reg = RegistryTypeUPSTREAM \<longrightarrow>
            getManifestList env (before @ child # after) reg img root dc =
            getManifestList env (before @ after) reg img root dc) \<and>
         (reg_Type reg \<noteq> RegistryTypeUPSTREAM \<longrightarrow>
            (\<exists>err. getManifestList env (before @ child # after) reg img root dc = Inl err) \<and>
            (\<forall>details. getManifestList env before reg img root dc = Inr details \<longrightarrow>
               getManifestList env (before @ child # after) reg img root dc =
               Inl (ErrManifestNotFound (Digest_String env d))))"
  using assms
  unfolding getManifestList_def getManifestList_loop_append
  by (cases "getManifestList_loop env reg img root dc before []") auto

theorem getManifestList_missing_child_witness:
  "NewDigest exManifestEnv (desc_Digest exChildB) = Inr (exDigest CHR ''b'') \<and>
   FindManifestByDigest exManifestEnv (reg_ID exUpstreamReg) ''alpine'' (exDigest CHR ''b'')
     = Inl ErrResourceNotFound \<and>
   reg_Type exUpstreamReg = RegistryTypeUPSTREAM \<and>
   getManifestList exManifestEnv ([exChildA] @ exChildB # [exChildA]) exUpstreamReg
     ''alpine'' ''root'' 3 = Inr [exDetailsA, exDetailsA] \<and>
   reg_Type exVirtualReg \<noteq> RegistryTypeUPSTREAM \<and>
   getManifestList exManifestEnv [exChildA] exVirtualReg ''alpine'' ''root'' 3
     = Inr [exDetailsA] \<and>
   getManifestList exManifestEnv ([exChildA] @ exChildB # [exChildA]) exVirtualReg
     ''alpine'' ''root'' 3 = Inl (ErrManifestNotFound (exDigest CHR ''b''))"
proof -
  have n: "NewDigest exManifestEnv (desc_Digest exChildB) = Inr (exDigest CHR ''b'')" by code_simp
  have fu: "FindManifestByDigest exManifestEnv (reg_ID exUpstreamReg) ''alpine'' (exDigest CHR ''b'')
     = Inl ErrResourceNotFound" by code_simp
  have fv: "FindManifestByDigest exManifestEnv (reg_ID exVirtualReg) ''alpine'' (exDigest CHR ''b'')
     = Inl ErrResourceNotFound" by code_simp
  have u: "reg_Type exUpstreamReg = RegistryTypeUPSTREAM" by code_simp
  have v: "reg_Type exVirtualReg \<noteq> RegistryTypeUPSTREAM" by code_simp
  have r: "getManifestList exManifestEnv ([exChildA] @ [exChildA]) exUpstreamReg
     ''alpine'' ''root'' 3 = Inr [exDetailsA, exDetailsA]" by code_simp
  have b: "getManifestList exManifestEnv [exChildA] exVirtualReg ''alpine'' ''root'' 3
     = Inr [exDetailsA]" by code_simp
  have s: "Digest_String exManifestEnv (exDigest CHR ''b'') = (exDigest CHR ''b'')" by code_simp
  have nf: "errorsIs ErrResourceNotFound ErrResourceNotFound" by simp
  from getManifestList_missing_child[OF n fu nf, of "[exChildA]" "[exChildA]" "''root''" 3] u r
  have a1: "getManifestList exManifestEnv ([exChildA] @ exChildB # [exChildA]) exUpstreamReg
     ''alpine'' ''root'' 3 = Inr [exDetailsA, exDetailsA]" by simp
  from getManifestList_missing_child[OF n fv nf, of "[exChildA]" "[exChildA]" "''root''" 3] v b s
  have a2: "getManifestList exManifestEnv ([exChildA] @ exChildB # [exChildA]) exVirtualReg
     ''alpine'' ''root'' 3 = Inl (ErrManifestNotFound (exDigest CHR ''b''))" by simp
  from n fu u a1 v b a2 show ?thesis by simp
qed

section \<open>Properties of registry deletion\<close>

lemma keepsBlobs_refl [simp]: "keepsBlobs db db"
  by (simp add: keepsBlobs_def)

lemma keepsBlobs_trans: "keepsBlobs a b \<Longrightarrow> keepsBlobs b c \<Longrightarrow> keepsBlobs a c"
  by (simp add: keepsBlobs_def)

lemma applyCall_keepsBlobs: "keepsBlobs db (applyCall call db)"
  by (cases call) (simp_all add: keepsBlobs_def)

lemma execCall_keepsBlobs: "keepsBlobs db (snd (execCall c call db))"
  by (simp add: execCall_def applyCall_keepsBlobs split: option.splits)

lemma andThen_keepsBlobs:
  assumes "keepsBlobs db (snd r)" and "\<And>d. keepsBlobs d (snd (f d))"
  shows "keepsBlobs db (snd (andThen r f))"
proof (cases r)
  case (Pair e d)
  then show ?thesis
    using assms(1) assms(2)[of d] keepsBlobs_trans[of db d "snd (f d)"]
    by (cases e) (simp_all add: andThen_def)
qed

lemma wrapErr_snd [simp]: "snd (wrapErr msg r) = snd r"
  by (cases r) (simp add: wrapErr_def split: option.splits)

lemma deleteRegistryWithAudit_keepsBlobs:
  "keepsBlobs db (snd (deleteRegistryWithAudit c regInfo reg p parentRef db))"
  unfolding deleteRegistryWithAudit_def
  by (intro andThen_keepsBlobs execCall_keepsBlobs) (simp add: execCall_keepsBlobs)

lemma deleteUpstreamProxyWithAudit_keepsBlobs:
  "keepsBlobs db (snd (deleteUpstreamProxyWithAudit c regInfo p parentRef name db))"
  unfolding deleteUpstreamProxyWithAudit_def
  by (cases "upstreamProxyInUse c regInfo name db")
     (auto intro!: andThen_keepsBlobs execCall_keepsBlobs)

lemma WithTx_keepsBlobs:
  assumes "\<And>d. keepsBlobs d (snd (f d))"
  shows "keepsBlobs db (snd (WithTx f db))"
  using assms[of db] by (cases "f db") (simp add: WithTx_def split: option.splits)

lemma DeleteRegistry_keepsBlobs: "keepsBlobs db (snd (DeleteRegistry c p regRef db))"
  unfolding DeleteRegistry_def Let_def
  by (auto split: sum.splits option.splits prod.splits
           intro!: WithTx_keepsBlobs andThen_keepsBlobs
                   deleteRegistryWithAudit_keepsBlobs deleteUpstreamProxyWithAudit_keepsBlobs)


lemma deleteRegistryWithAudit_success:
  assumes "fst (deleteRegistryWithAudit c regInfo reg p parentRef db) = None"
    and "sameRegistryTables db0 db"
  shows "registryRowsRemoved regInfo db0 (snd (deleteRegistryWithAudit c regInfo reg p parentRef db))"
  using assms
  unfolding deleteRegistryWithAudit_def registryRowsRemoved_def sameRegistryTables_def
  by (auto simp: andThen_def execCall_def split: option.splits)

lemma deleteUpstreamProxyWithAudit_tables:
  "sameRegistryTables db (snd (deleteUpstreamProxyWithAudit c regInfo p parentRef name db))"
  unfolding deleteUpstreamProxyWithAudit_def sameRegistryTables_def
  by (auto simp: andThen_def execCall_def split: option.splits)

lemma wrapErr_fst_None [simp]: "fst (wrapErr msg r) = None \<longleftrightarrow> fst r = None"
  by (cases r) (simp add: wrapErr_def split: option.splits)

lemma WithTx_success: "fst (WithTx f db) = None \<Longrightarrow> fst (f db) = None \<and> snd (WithTx f db) = snd (f db)"
  by (cases "f db") (simp add: WithTx_def split: option.splits)

lemma andThen_success:
  "fst (andThen r f) = None \<Longrightarrow> fst r = None \<and> fst (f (snd r)) = None \<and> snd (andThen r f) = snd (f (snd r))"
  by (cases r) (simp add: andThen_def split: option.splits)

text \<open>
  C6. Whatever \<open>DeleteRegistry\<close> answers, the blob records and the content-addressed
  objects are the same after it as before it: it makes no blob deletion. When it answers
  200, the download stats, the bandwidth stats and the images of the registry and the
  registry row itself are removed (and no other row of those tables).
\<close>

theorem DeleteRegistry_frame:
  "blobs (snd (DeleteRegistry c p regRef db)) = blobs db \<and>
   casObjects (snd (DeleteRegistry c p regRef db)) = casObjects db \<and>
   (fst (DeleteRegistry c p regRef db) = DeleteReturn DeleteRegistry200 None \<longrightarrow>
      (\<exists>regInfo. c_GetRegistryRequestBaseInfo c db regRef = Inr regInfo \<and>
         registryRowsRemoved regInfo db (snd (DeleteRegistry c p regRef db))))"
proof (intro conjI impI)
  from DeleteRegistry_keepsBlobs[of db c p regRef]
  show "blobs (snd (DeleteRegistry c p regRef db)) = blobs db"
    and "casObjects (snd (DeleteRegistry c p regRef db)) = casObjects db"
    by (simp_all add: keepsBlobs_def)
next
  assume ok: "fst (DeleteRegistry c p regRef db) = DeleteReturn DeleteRegistry200 None"
  then obtain regInfo where ri: "c_GetRegistryRequestBaseInfo c db regRef = Inr regInfo"
    by (auto simp: DeleteRegistry_def split: sum.splits)
  from ok ri obtain space where sp: "c_SpaceStore_FindByRef c db (ri_ParentRef regInfo) = Inr space"
    by (auto simp: DeleteRegistry_def split: sum.splits)
  from ok ri sp have ck: "c_CheckRegistry c p space (ri_RegistryIdentifier regInfo) = None"
    by (auto simp: DeleteRegistry_def split: option.splits)
  from ok ri sp ck obtain repoEntity where
    ge: "c_GetByParentIDAndName c db (ri_parentID regInfo) (ri_RegistryIdentifier regInfo)
           = (Some repoEntity, None)" and nm: "reg_Name repoEntity \<noteq> []"
    by (auto simp: DeleteRegistry_def Let_def split: option.splits prod.splits if_splits)
  show "\<exists>regInfo. c_GetRegistryRequestBaseInfo c db regRef = Inr regInfo \<and>
         registryRowsRemoved regInfo db (snd (DeleteRegistry c p regRef db))"
  proof (cases "reg_Type repoEntity = RegistryTypeVIRTUAL")
    case True
    let ?f = "\<lambda>db. wrapErr ''failed to delete registry''
                (deleteRegistryWithAudit c regInfo repoEntity p (ri_ParentRef regInfo) db)"
    from ok ri sp ck ge nm True have f: "fst (WithTx ?f db) = None"
      and s: "snd (DeleteRegistry c p regRef db) = snd (WithTx ?f db)"
      by (auto simp: DeleteRegistry_def Let_def split: option.splits)
    from WithTx_success[OF f] have
      "fst (deleteRegistryWithAudit c regInfo repoEntity p (ri_ParentRef regInfo) db) = None"
      and "snd (WithTx ?f db) =
           snd (deleteRegistryWithAudit c regInfo repoEntity p (ri_ParentRef regInfo) db)"
      by simp_all
    with deleteRegistryWithAudit_success[of c regInfo repoEntity p "ri_ParentRef regInfo" db db]
    have "registryRowsRemoved regInfo db (snd (WithTx ?f db))"
      by (simp add: sameRegistryTables_def)
    with ri s show ?thesis by simp
  next
    case False
    let ?u = "\<lambda>db. wrapErr ''failed to delete upstream proxy''
                (deleteUpstreamProxyWithAudit c regInfo p (ri_ParentRef regInfo)
                   (reg_Name repoEntity) db)"
    let ?g = "\<lambda>db. wrapErr ''failed to delete registry''
                (deleteRegistryWithAudit c regInfo repoEntity p (ri_ParentRef regInfo) db)"
    let ?f = "\<lambda>db. andThen (?u db) ?g"
    from ok ri sp ck ge nm False have f: "fst (WithTx ?f db) = None"
      and s: "snd (DeleteRegistry c p regRef db) = snd (WithTx ?f db)"
      by (auto simp: DeleteRegistry_def Let_def split: option.splits)
    from WithTx_success[OF f] have f2: "fst (andThen (?u db) ?g) = None"
      and s2: "snd (WithTx ?f db) = snd (andThen (?u db) ?g)" by simp_all
    from andThen_success[OF f2] have f3: "fst (?g (snd (?u db))) = None"
      and s3: "snd (andThen (?u db) ?g) = snd (?g (snd (?u db)))" by simp_all
    define db1 where "db1 = snd (deleteUpstreamProxyWithAudit c regInfo p (ri_ParentRef regInfo)
                   (reg_Name repoEntity) db)"
    have t: "sameRegistryTables db db1"
      unfolding db1_def by (rule deleteUpstreamProxyWithAudit_tables)
    from f3 have "fst (deleteRegistryWithAudit c regInfo repoEntity p (ri_ParentRef regInfo) db1) = None"
      by (simp add: db1_def)
    from deleteRegistryWithAudit_success[OF this t]
    have "registryRowsRemoved regInfo db (snd (WithTx ?f db))"
      using s2 s3 by (simp add: db1_def)
    with ri s show ?thesis by simp
  qed
qed

theorem DeleteRegistry_frame_witness:
  "fst (DeleteRegistry exController ''admin'' ''root/reg'' exDB)
     = DeleteReturn DeleteRegistry200 None \<and>
   blobs (snd (DeleteRegistry exController ''admin'' ''root/reg'' exDB)) = [(''sha256:aa'', 10)] \<and>
   casObjects (snd (DeleteRegistry exController ''admin'' ''root/reg'' exDB))
     = [(''sha256:aa'', ''0123456789'')] \<and>
   downloadStats (snd (DeleteRegistry exController ''admin'' ''root/reg'' exDB))
     = [(8, ''pull nginx'')] \<and>
   bandwidthStats (snd (DeleteRegistry exController ''admin'' ''root/reg'' exDB)) = [] \<and>
   images (snd (DeleteRegistry exController ''admin'' ''root/reg'' exDB)) = [(8, ''nginx'')] \<and>
   registries (snd (DeleteRegistry exController ''admin'' ''root/reg'' exDB)) = [exUpstreamReg]"
proof -
  let ?db' = "snd (DeleteRegistry exController ''admin'' ''root/reg'' exDB)"
  have ok: "fst (DeleteRegistry exController ''admin'' ''root/reg'' exDB)
     = DeleteReturn DeleteRegistry200 None" by code_simp
  have ri: "c_GetRegistryRequestBaseInfo exController exDB ''root/reg'' = Inr exRegInfo"
    by code_simp
  from DeleteRegistry_frame[of exController "''admin''" "''root/reg''" exDB] ok ri
  have b: "blobs ?db' = blobs exDB" and c: "casObjects ?db' = casObjects exDB"
    and r: "registryRowsRemoved exRegInfo exDB ?db'" by auto
  have f1: "filter (\<lambda>row. fst row \<noteq> ri_RegistryID exRegInfo) (downloadStats exDB)
              = [(8, ''pull nginx'')]" by code_simp
  have f2: "filter (\<lambda>row. fst row \<noteq> ri_RegistryID exRegInfo) (bandwidthStats exDB) = []"
    by code_simp
  have f3: "filter (\<lambda>row. fst row \<noteq> ri_RegistryID exRegInfo) (images exDB) = [(8, ''nginx'')]"
    by code_simp
  have f4: "filter (\<lambda>r. \<not> (reg_ParentID r = ri_parentID exRegInfo \<and>
                         reg_Name r = ri_RegistryIdentifier exRegInfo)) (registries exDB)
              = [exUpstreamReg]" by code_simp
  have b0: "blobs exDB = [(''sha256:aa'', 10)]"
    and c0: "casObjects exDB = [(''sha256:aa'', ''0123456789'')]" by (simp_all add: exDB_def)
  from r have "downloadStats ?db' = [(8, ''pull nginx'')]" "bandwidthStats ?db' = []"
    "images ?db' = [(8, ''nginx'')]" "registries ?db' = [exUpstreamReg]"
    unfolding registryRowsRemoved_def f1 f2 f3 f4 by blast+
  with ok b c b0 c0 show ?thesis by simp
qed

section \<open>Properties of the client setup details\<close>

lemma replaceText_eq:
  assumes "cmd_Value (cmds ! i) = Some v" and "cmd_Label (cmds ! i) = Some l"
  shows "replaceText env username cmds i hostname repoName imageParam tagParam =
           Inr (cmds[i := \<lparr>cmd_Label = Some (substitute [(''<USERNAME>'', presentString username)] l),
                           cmd_Value = Some (substitute
                              (tokenValues env username hostname repoName imageParam tagParam) v)\<rparr>])"
proof -
  obtain c where c: "cmds ! i = c" by simp
  have cv: "c = \<lparr>cmd_Label = Some l, cmd_Value = Some v\<rparr>"
    using assms c by (cases c) simp
  show ?thesis
    unfolding replaceText_def c cv
    by (cases imageParam; cases tagParam)
       (simp_all add: replaceValue_def replaceLabel_def tokenValues_def presentString_def)
qed


lemma helm_replaced:
  "\<exists>d. replacePlaceholders env helmClientSetupDetails username regRef imageParam tagParam = Inr d \<and>
       MainHeader d = ''Helm Client Setup'' \<and>
       commandValues d =
         map (\<lambda>v. Some (substitute (placeholders env username regRef imageParam tagParam) v))
           [''helm registry login <LOGIN_HOSTNAME>'',
            ''<USERNAME>'',
            [],
            ''helm push <CHART_TGZ_FILE> oci://<HOSTNAME>/<REGISTRY_NAME>'',
            ''helm pull oci://<HOSTNAME>/<REGISTRY_NAME>/<IMAGE_NAME> --version <TAG>''] \<and>
       commandLabels d =
         map (\<lambda>l. Some (substitute [(''<USERNAME>'', presentString username)] l))
           [[], ''Username: <USERNAME>'', ''Password: *see step 2*'', [], []]"
  unfolding replacePlaceholders_def helmClientSetupDetails_def Let_def placeholders_def
  by (simp add: replaceText_eq upt_rec commandValues_def commandLabels_def sectionCommands_def
        stepCommands_def)

lemma docker_replaced:
  "\<exists>d. replacePlaceholders env dockerClientSetupDetails username regRef imageParam tagParam = Inr d \<and>
       MainHeader d = ''Docker Client Setup'' \<and>
       commandValues d =
         map (\<lambda>v. Some (substitute (placeholders env username regRef imageParam tagParam) v))
           [''docker login <LOGIN_HOSTNAME>'',
            ''<USERNAME>'',
            [],
            ''docker tag <IMAGE_NAME>:<TAG> <HOSTNAME>/<REGISTRY_NAME>/<IMAGE_NAME>:<TAG>'',
            ''docker push <HOSTNAME>/<REGISTRY_NAME>/<IMAGE_NAME>:<TAG>'',
            ''docker pull <HOSTNAME>/<REGISTRY_NAME>/<IMAGE_NAME>:<TAG>''] \<and>
       commandLabels d =
         map (\<lambda>l. Some (substitute [(''<USERNAME>'', presentString username)] l))
           [[], ''Username: <USERNAME>'', ''Password: *see step 2*'', [], [], []]"
  unfolding replacePlaceholders_def dockerClientSetupDetails_def Let_def placeholders_def
  by (simp add: replaceText_eq upt_rec commandValues_def commandLabels_def sectionCommands_def
        stepCommands_def)


lemma ReplaceAll_skip:
  "CHR ''<'' \<notin> set xs \<Longrightarrow>
   ReplaceAll (xs @ ys) (CHR ''<'' # t) new = xs @ ReplaceAll ys (CHR ''<'' # t) new"
  by (induction xs) auto

lemma ReplaceAll_free:
  "CHR ''<'' \<notin> set xs \<Longrightarrow> ReplaceAll xs (CHR ''<'' # t) new = xs"
  using ReplaceAll_skip[of xs "[]" t new] by simp

lemma helm_explicit:
  assumes "username \<noteq> []" "hostname \<noteq> []" "registryName \<noteq> []"
    and "CHR ''<'' \<notin> set username" "CHR ''<'' \<notin> set hostname"
    and "CHR ''<'' \<notin> set (GetHost env hostname)" "CHR ''<'' \<notin> set registryName"
    and "CHR ''<'' \<notin> set img"
  shows "map (substitute (tokenValues env username hostname registryName (Some img) (Some tg)))
           [''helm registry login <LOGIN_HOSTNAME>'',
            ''<USERNAME>'',
            [],
            ''helm push <CHART_TGZ_FILE> oci://<HOSTNAME>/<REGISTRY_NAME>'',
            ''helm pull oci://<HOSTNAME>/<REGISTRY_NAME>/<IMAGE_NAME> --version <TAG>'']
         = [''helm registry login '' @ GetHost env hostname,
            username,
            [],
            ''helm push <CHART_TGZ_FILE> oci://'' @ hostname @ ''/'' @ registryName,
            ''helm pull oci://'' @ hostname @ ''/'' @ registryName @ ''/'' @ img @
              '' --version '' @ tg]"
  using assms
  by (simp add: tokenValues_def presentString_def ReplaceAll_skip ReplaceAll_free)

lemma docker_explicit:
  assumes "username \<noteq> []" "hostname \<noteq> []" "registryName \<noteq> []"
    and "CHR ''<'' \<notin> set username" "CHR ''<'' \<notin> set hostname"
    and "CHR ''<'' \<notin> set (GetHost env hostname)" "CHR ''<'' \<notin> set registryName"
    and "CHR ''<'' \<notin> set img"
  shows "map (substitute (tokenValues env username hostname registryName (Some img) (Some tg)))
           [''docker login <LOGIN_HOSTNAME>'',
            ''<USERNAME>'',
            [],
            ''docker tag <IMAGE_NAME>:<TAG> <HOSTNAME>/<REGISTRY_NAME>/<IMAGE_NAME>:<TAG>'',
            ''docker push <HOSTNAME>/<REGISTRY_NAME>/<IMAGE_NAME>:<TAG>'',
            ''docker pull <HOSTNAME>/<REGISTRY_NAME>/<IMAGE_NAME>:<TAG>'']
         = [''docker login '' @ GetHost env hostname,
            username,
            [],
            ''docker tag '' @ img @ '':'' @ tg @ '' '' @ hostname @ ''/'' @ registryName @ ''/'' @
              img @ '':'' @ tg,
            ''docker push '' @ hostname @ ''/'' @ registryName @ ''/'' @ img @ '':'' @ tg,
            ''docker pull '' @ hostname @ ''/'' @ registryName @ ''/'' @ img @ '':'' @ tg]"
  using assms
  by (simp add: tokenValues_def presentString_def ReplaceAll_skip ReplaceAll_free)


text \<open>
  C7. \<open>GenerateClientSetupDetails\<close> returns normally. For packageType \<open>HELM\<close> it
  returns the Helm setup (login, push, pull), otherwise the Docker setup (login, tag, push,
  pull). The value of every emitted command is its template with each of the tokens
  \<open><USERNAME>\<close>, \<open><HOSTNAME>\<close>, \<open><LOGIN_HOSTNAME>\<close>, \<open><REGISTRY_NAME>\<close>,
  \<open><IMAGE_NAME>\<close>, \<open><TAG>\<close> replaced by its value whenever the value is present
  (non-empty user name, host name and registry name; non-nil image and tag), and every
  label has \<open><USERNAME>\<close> replaced likewise. When all values are present and none of the
  values inserted before the tag contains the character \<open><\<close>, the commands are the
  instructions written out in the last part.
\<close>

theorem GenerateClientSetupDetails_instructions:
  "\<exists>resp. GenerateClientSetupDetails env username packageType imageParam tagParam registryRef
            = Inr resp \<and>
      Status resp = StatusSUCCESS \<and>
      MainHeader (Data resp) =
        (if packageType = ''HELM'' then ''Helm Client Setup'' else ''Docker Client Setup'') \<and>
      commandValues (Data resp) =
        map (\<lambda>v. Some (substitute (placeholders env username registryRef imageParam tagParam) v))
          (if packageType = ''HELM''
           then [''helm registry login <LOGIN_HOSTNAME>'',
                 ''<USERNAME>'',
                 [],
                 ''helm push <CHART_TGZ_FILE> oci://<HOSTNAME>/<REGISTRY_NAME>'',
                 ''helm pull oci://<HOSTNAME>/<REGISTRY_NAME>/<IMAGE_NAME> --version <TAG>'']
           else [''docker login <LOGIN_HOSTNAME>'',
                 ''<USERNAME>'',
                 [],
                 ''docker tag <IMAGE_NAME>:<TAG> <HOSTNAME>/<REGISTRY_NAME>/<IMAGE_NAME>:<TAG>'',
                 ''docker push <HOSTNAME>/<REGISTRY_NAME>/<IMAGE_NAME>:<TAG>'',
                 ''docker pull <HOSTNAME>/<REGISTRY_NAME>/<IMAGE_NAME>:<TAG>'']) \<and>
      commandLabels (Data resp) =
        map (\<lambda>l. Some (substitute [(''<USERNAME>'', presentString username)] l))
          (if packageType = ''HELM''
           then [[], ''Username: <USERNAME>'', ''Password: *see step 2*'', [], []]
           else [[], ''Username: <USERNAME>'', ''Password: *see step 2*'', [], [], []]) \<and>
      (let hostname = TrimURLScheme env (RegistryURL env (DisectRoot env registryRef));
           registryName = DisectLeaf env registryRef
       in \<forall>img tg.
            username \<noteq> [] \<and> hostname \<noteq> [] \<and> registryName \<noteq> [] \<and>
            imageParam = Some img \<and> tagParam = Some tg \<and>
            CHR ''<'' \<notin> set username \<and> CHR ''<'' \<notin> set hostname \<and>
            CHR ''<'' \<notin> set (GetHost env hostname) \<and> CHR ''<'' \<notin> set registryName \<and>
            CHR ''<'' \<notin> set img \<longrightarrow>
            commandValues (Data resp) =
              map Some
                (if packageType = ''HELM''
                 then [''helm registry login '' @ GetHost env hostname,
                       username,
                       [],
                       ''helm push <CHART_TGZ_FILE> oci://'' @ hostname @ ''/'' @ registryName,
                       ''helm pull oci://'' @ hostname @ ''/'' @ registryName @ ''/'' @ img @
                         '' --version '' @ tg]
                 else [''docker login '' @ GetHost env hostname,
                       username,
                       [],
                       ''docker tag '' @ img @ '':'' @ tg @ '' '' @ hostname @ ''/'' @
                         registryName @ ''/'' @ img @ '':'' @ tg,
                       ''docker push '' @ hostname @ ''/'' @ registryName @ ''/'' @ img @ '':'' @ tg,
                       ''docker pull '' @ hostname @ ''/'' @ registryName @ ''/'' @ img @ '':'' @ tg]))"
proof (cases "packageType = ''HELM''")
  case True
  from helm_replaced[of env username registryRef imageParam tagParam]
  obtain d where d: "replacePlaceholders env helmClientSetupDetails username registryRef
                       imageParam tagParam = Inr d"
    and h: "MainHeader d = ''Helm Client Setup''"
    and v: "commandValues d =
         map (\<lambda>v. Some (substitute (placeholders env username registryRef imageParam tagParam) v))
           [''helm registry login <LOGIN_HOSTNAME>'',
            ''<USERNAME>'',
            [],
            ''helm push <CHART_TGZ_FILE> oci://<HOSTNAME>/<REGISTRY_NAME>'',
            ''helm pull oci://<HOSTNAME>/<REGISTRY_NAME>/<IMAGE_NAME> --version <TAG>'']"
    and l: "commandLabels d =
         map (\<lambda>l. Some (substitute [(''<USERNAME>'', presentString username)] l))
           [[], ''Username: <USERNAME>'', ''Password: *see step 2*'', [], []]"
    by blast
  have r: "GenerateClientSetupDetails env username packageType imageParam tagParam registryRef
            = Inr \<lparr>Data = d, Status = StatusSUCCESS\<rparr>"
    using True d by (simp add: GenerateClientSetupDetails_def)
  have e: "\<And>img tg. username \<noteq> [] \<Longrightarrow>
      TrimURLScheme env (RegistryURL env (DisectRoot env registryRef)) \<noteq> [] \<Longrightarrow>
      DisectLeaf env registryRef \<noteq> [] \<Longrightarrow> imageParam = Some img \<Longrightarrow> tagParam = Some tg \<Longrightarrow>
      CHR ''<'' \<notin> set username \<Longrightarrow>
      CHR ''<'' \<notin> set (TrimURLScheme env (RegistryURL env (DisectRoot env registryRef))) \<Longrightarrow>
      CHR ''<'' \<notin> set (GetHost env (TrimURLScheme env (RegistryURL env (DisectRoot env registryRef)))) \<Longrightarrow>
      CHR ''<'' \<notin> set (DisectLeaf env registryRef) \<Longrightarrow> CHR ''<'' \<notin> set img \<Longrightarrow>
      commandValues d = map Some
         [''helm registry login '' @
            GetHost env (TrimURLScheme env (RegistryURL env (DisectRoot env registryRef))),
          username,
          [],
          ''helm push <CHART_TGZ_FILE> oci://'' @
            TrimURLScheme env (RegistryURL env (DisectRoot env registryRef)) @ ''/'' @
            DisectLeaf env registryRef,
          ''helm pull oci://'' @ TrimURLScheme env (RegistryURL env (DisectRoot env registryRef)) @
            ''/'' @ DisectLeaf env registryRef @ ''/'' @ img @ '' --version '' @ tg]"
  proof -
    fix img tg
    assume a: "username \<noteq> []"
      "TrimURLScheme env (RegistryURL env (DisectRoot env registryRef)) \<noteq> []"
      "DisectLeaf env registryRef \<noteq> []" "CHR ''<'' \<notin> set username"
      "CHR ''<'' \<notin> set (TrimURLScheme env (RegistryURL env (DisectRoot env registryRef)))"
      "CHR ''<'' \<notin> set (GetHost env (TrimURLScheme env (RegistryURL env (DisectRoot env registryRef))))"
      "CHR ''<'' \<notin> set (DisectLeaf env registryRef)" "CHR ''<'' \<notin> set img"
      and p: "imageParam = Some img" "tagParam = Some tg"
    have "commandValues d = map Some (map (substitute (placeholders env username registryRef
            imageParam tagParam))
           [''helm registry login <LOGIN_HOSTNAME>'',
            ''<USERNAME>'',
            [],
            ''helm push <CHART_TGZ_FILE> oci://<HOSTNAME>/<REGISTRY_NAME>'',
            ''helm pull oci://<HOSTNAME>/<REGISTRY_NAME>/<IMAGE_NAME> --version <TAG>''])"
      unfolding v by simp
    then show "commandValues d = map Some
         [''helm registry login '' @
            GetHost env (TrimURLScheme env (RegistryURL env (DisectRoot env registryRef))),
          username,
          [],
          ''helm push <CHART_TGZ_FILE> oci://'' @
            TrimURLScheme env (RegistryURL env (DisectRoot env registryRef)) @ ''/'' @
            DisectLeaf env registryRef,
          ''helm pull oci://'' @ TrimURLScheme env (RegistryURL env (DisectRoot env registryRef)) @
            ''/'' @ DisectLeaf env registryRef @ ''/'' @ img @ '' --version '' @ tg]"
      unfolding placeholders_def p helm_explicit[OF a] .
  qed
  show ?thesis
    unfolding r Let_def using True h v l e by auto
next
  case False
  from docker_replaced[of env username registryRef imageParam tagParam]
  obtain d where d: "replacePlaceholders env dockerClientSetupDetails username registryRef
                       imageParam tagParam = Inr d"
    and h: "MainHeader d = ''Docker Client Setup''"
    and v: "commandValues d =
         map (\<lambda>v. Some (substitute (placeholders env username registryRef imageParam tagParam) v))
           [''docker login <LOGIN_HOSTNAME>'',
            ''<USERNAME>'',
            [],
            ''docker tag <IMAGE_NAME>:<TAG> <HOSTNAME>/<REGISTRY_NAME>/<IMAGE_NAME>:<TAG>'',
            ''docker push <HOSTNAME>/<REGISTRY_NAME>/<IMAGE_NAME>:<TAG>'',
            ''docker pull <HOSTNAME>/<REGISTRY_NAME>/<IMAGE_NAME>:<TAG>'']"
    and l: "commandLabels d =
         map (\<lambda>l. Some (substitute [(''<USERNAME>'', presentString username)] l))
           [[], ''Username: <USERNAME>'', ''Password: *see step 2*'', [], [], []]"
    by blast
  have r: "GenerateClientSetupDetails env username packageType imageParam tagParam registryRef
            = Inr \<lparr>Data = d, Status = StatusSUCCESS\<rparr>"
    using False d by (simp add: GenerateClientSetupDetails_def)
  have e: "\<And>img tg. username \<noteq> [] \<Longrightarrow>
      TrimURLScheme env (RegistryURL env (DisectRoot env registryRef)) \<noteq> [] \<Longrightarrow>
      DisectLeaf env registryRef \<noteq> [] \<Longrightarrow> imageParam = Some img \<Longrightarrow> tagParam = Some tg \<Longrightarrow>
      CHR ''<'' \<notin> set username \<Longrightarrow>
      CHR ''<'' \<notin> set (TrimURLScheme env (RegistryURL env (DisectRoot env registryRef))) \<Longrightarrow>
      CHR ''<'' \<notin> set (GetHost env (TrimURLScheme env (RegistryURL env (DisectRoot env registryRef)))) \<Longrightarrow>
      CHR ''<'' \<notin> set (DisectLeaf env registryRef) \<Longrightarrow> CHR ''<'' \<notin> set img \<Longrightarrow>
      commandValues d = map Some
         [''docker login '' @
            GetHost env (TrimURLScheme env (RegistryURL env (DisectRoot env registryRef))),
          username,
          [],
          ''docker tag '' @ img @ '':'' @ tg @ '' '' @
            TrimURLScheme env (RegistryURL env (DisectRoot env registryRef)) @ ''/'' @
            DisectLeaf env registryRef @ ''/'' @ img @ '':'' @ tg,
          ''docker push '' @ TrimURLScheme env (RegistryURL env (DisectRoot env registryRef)) @
            ''/'' @ DisectLeaf env registryRef @ ''/'' @ img @ '':'' @ tg,
          ''docker pull '' @ TrimURLScheme env (RegistryURL env (DisectRoot env registryRef)) @
            ''/'' @ DisectLeaf env registryRef @ ''/'' @ img @ '':'' @ tg]"
  proof -
    fix img tg
    assume a: "username \<noteq> []"
      "TrimURLScheme env (RegistryURL env (DisectRoot env registryRef)) \<noteq> []"
      "DisectLeaf env registryRef \<noteq> []" "CHR ''<'' \<notin> set username"
      "CHR ''<'' \<notin> set (TrimURLScheme env (RegistryURL env (DisectRoot env registryRef)))"
      "CHR ''<'' \<notin> set (GetHost env (TrimURLScheme env (RegistryURL env (DisectRoot env registryRef))))"
      "CHR ''<'' \<notin> set (DisectLeaf env registryRef)" "CHR ''<'' \<notin> set img"
      and p: "imageParam = Some img" "tagParam = Some tg"
    have "commandValues d = map Some (map (substitute (placeholders env username registryRef
            imageParam tagParam))
           [''docker login <LOGIN_HOSTNAME>'',
            ''<USERNAME>'',
            [],
            ''docker tag <IMAGE_NAME>:<TAG> <HOSTNAME>/<REGISTRY_NAME>/<IMAGE_NAME>:<TAG>'',
            ''docker push <HOSTNAME>/<REGISTRY_NAME>/<IMAGE_NAME>:<TAG>'',
            ''docker pull <HOSTNAME>/<REGISTRY_NAME>/<IMAGE_NAME>:<TAG>''])"
      unfolding v by simp
    then show "commandValues d = map Some
         [''docker login '' @
            GetHost env (TrimURLScheme env (RegistryURL env (DisectRoot env registryRef))),
          username,
          [],
          ''docker tag '' @ img @ '':'' @ tg @ '' '' @
            TrimURLScheme env (RegistryURL env (DisectRoot env registryRef)) @ ''/'' @
            DisectLeaf env registryRef @ ''/'' @ img @ '':'' @ tg,
          ''docker push '' @ TrimURLScheme env (RegistryURL env (DisectRoot env registryRef)) @
            ''/'' @ DisectLeaf env registryRef @ ''/'' @ img @ '':'' @ tg,
          ''docker pull '' @ TrimURLScheme env (RegistryURL env (DisectRoot env registryRef)) @
            ''/'' @ DisectLeaf env registryRef @ ''/'' @ img @ '':'' @ tg]"
      unfolding placeholders_def p docker_explicit[OF a] .
  qed
  show ?thesis
    unfolding r Let_def using False h v l e by auto
qed


theorem GenerateClientSetupDetails_instructions_witness:
  "(\<exists>resp. GenerateClientSetupDetails exSetupEnv ''dev@example.com'' ''HELM'' (Some ''chart'')
             (Some ''1.0'') ''root/reg'' = Inr resp \<and>
      MainHeader (Data resp) = ''Helm Client Setup'' \<and>
      commandValues (Data resp) =
        [Some ''helm registry login pkg.example.com'',
         Some ''dev@example.com'',
         Some [],
         Some ''helm push <CHART_TGZ_FILE> oci://pkg.example.com/root/reg'',
         Some ''helm pull oci://pkg.example.com/root/reg/chart --version 1.0'']) \<and>
   (\<exists>resp. GenerateClientSetupDetails exSetupEnv ''dev@example.com'' ''DOCKER'' (Some ''alpine'')
             (Some ''3.19'') ''root/reg'' = Inr resp \<and>
      MainHeader (Data resp) = ''Docker Client Setup'' \<and>
      commandValues (Data resp) =
        [Some ''docker login pkg.example.com'',
         Some ''dev@example.com'',
         Some [],
         Some ''docker tag alpine:3.19 pkg.example.com/root/reg/alpine:3.19'',
         Some ''docker push pkg.example.com/root/reg/alpine:3.19'',
         Some ''docker pull pkg.example.com/root/reg/alpine:3.19''])"
proof -
  have hn: "TrimURLScheme exSetupEnv (RegistryURL exSetupEnv (DisectRoot exSetupEnv ''root/reg''))
              = ''pkg.example.com/root''" by code_simp
  have rn: "DisectLeaf exSetupEnv ''root/reg'' = ''reg''" by code_simp
  have gh: "GetHost exSetupEnv ''pkg.example.com/root'' = ''pkg.example.com''" by code_simp
  have ne: "''DOCKER'' \<noteq> ''HELM''" by simp
  from GenerateClientSetupDetails_instructions[of exSetupEnv "''dev@example.com''" "''HELM''"
         "Some ''chart''" "Some ''1.0''" "''root/reg''"]
  have a: "\<exists>resp. GenerateClientSetupDetails exSetupEnv ''dev@example.com'' ''HELM'' (Some ''chart'')
             (Some ''1.0'') ''root/reg'' = Inr resp \<and>
      MainHeader (Data resp) = ''Helm Client Setup'' \<and>
      commandValues (Data resp) =
        [Some ''helm registry login pkg.example.com'',
         Some ''dev@example.com'',
         Some [],
         Some ''helm push <CHART_TGZ_FILE> oci://pkg.example.com/root/reg'',
         Some ''helm pull oci://pkg.example.com/root/reg/chart --version 1.0'']"
    unfolding Let_def hn rn gh by auto
  from GenerateClientSetupDetails_instructions[of exSetupEnv "''dev@example.com''" "''DOCKER''"
         "Some ''alpine''" "Some ''3.19''" "''root/reg''"]
  have b: "\<exists>resp. GenerateClientSetupDetails exSetupEnv ''dev@example.com'' ''DOCKER'' (Some ''alpine'')
             (Some ''3.19'') ''root/reg'' = Inr resp \<and>
      MainHeader (Data resp) = ''Docker Client Setup'' \<and>
      commandValues (Data resp) =
        [Some ''docker login pkg.example.com'',
         Some ''dev@example.com'',
         Some [],
         Some ''docker tag alpine:3.19 pkg.example.com/root/reg/alpine:3.19'',
         Some ''docker push pkg.example.com/root/reg/alpine:3.19'',
         Some ''docker pull pkg.example.com/root/reg/alpine:3.19'']"
    unfolding Let_def hn rn gh using ne by auto
  from a b show ?thesis by blast
qed

end
